theory Spec2Isabelle
  imports Main "HOL-Library.Sublist"
begin

section \<open>The operating environment of the orchestrator\<close>

text \<open>
  The program is a straight line of calls into the operating system: the working
  directory, two database handles, the file system and three external tools
  (\<^verbatim>\<open>psql\<close>, \<^verbatim>\<open>pg_dump\<close>, \<^verbatim>\<open>pg_restore\<close>). Every such call is recorded, in order, in
  the \<open>trace\<close> of the world; what the call answers is given by an \<open>env\<close>, which may
  consult the whole world, and so the whole history. A Go \<^verbatim>\<open>error\<close> is kept by its
  text, \<^verbatim>\<open>nil\<close> is \<open>None\<close>.
\<close>

type_synonym error = string

type_synonym path = "string list"

datatype node = File | Dir

type_synonym fs = "path \<Rightarrow> node option"

datatype event =
    CallGetwd
  | LogLine string
  | SqlOpen string string
  | DbPing string
  | DbClose string
  | OsStat string
  | OsRemoveAll string
  | OsMkdirAll string nat
  | CmdRun string "string list"
  | OsExit nat

record world =
  files :: fs
  trace :: "event list"

text \<open>
  \<open>namei\<close> is the name resolution of the operating system (a name to its components
  from the root). The three \<open>_fault\<close> fields are errors of the infrastructure
  (permissions, I/O); a failed removal or creation may leave part of its work behind,
  which the fault returns as the files left. \<open>run_res\<close> is the exit of an external
  command together with the files it leaves.
\<close>

record env =
  getwd_res :: "world \<Rightarrow> error + string"
  namei :: "string \<Rightarrow> path"
  open_res :: "string \<Rightarrow> string \<Rightarrow> world \<Rightarrow> error option"
  ping_res :: "string \<Rightarrow> world \<Rightarrow> error option"
  stat_fault :: "string \<Rightarrow> world \<Rightarrow> error option"
  remove_fault :: "string \<Rightarrow> world \<Rightarrow> (error \<times> fs) option"
  mkdir_fault :: "string \<Rightarrow> world \<Rightarrow> (error \<times> fs) option"
  run_res :: "string \<Rightarrow> string list \<Rightarrow> world \<Rightarrow> error option \<times> fs"

definition emit :: "event \<Rightarrow> world \<Rightarrow> world" where
  "emit ev w = w\<lparr>trace := trace w @ [ev]\<rparr>"

text \<open>\<^verbatim>\<open>log.Println\<close> and \<^verbatim>\<open>log.Printf\<close>: one line of output; \<^verbatim>\<open>log.Fatal\<close> and
  \<^verbatim>\<open>log.Fatalf\<close>: the line, then \<^verbatim>\<open>os.Exit(1)\<close>.\<close>

definition log_Print :: "string \<Rightarrow> world \<Rightarrow> world" where
  "log_Print msg w = emit (LogLine msg) w"

definition log_Fatal :: "string \<Rightarrow> world \<Rightarrow> world" where
  "log_Fatal msg w = emit (OsExit 1) (emit (LogLine msg) w)"

definition os_Getwd :: "env \<Rightarrow> world \<Rightarrow> (error + string) \<times> world" where
  "os_Getwd E w = (getwd_res E w, emit CallGetwd w)"

text \<open>\<^verbatim>\<open>filepath.Join\<close> of a directory name and one plain element. The working directory
  is a rooted, clean name, on which the cleaning pass of \<^verbatim>\<open>Join\<close> changes nothing.\<close>

definition filepath_Join :: "string \<Rightarrow> string \<Rightarrow> string" where
  "filepath_Join a b =
     (if a = [] then b
      else if last a = CHR ''/'' then a @ b
      else a @ ''/'' @ b)"

definition sql_Open :: "env \<Rightarrow> string \<Rightarrow> string \<Rightarrow> world \<Rightarrow> error option \<times> world" where
  "sql_Open E driver connStr w = (open_res E driver connStr w, emit (SqlOpen driver connStr) w)"

definition db_Ping :: "env \<Rightarrow> string \<Rightarrow> world \<Rightarrow> error option \<times> world" where
  "db_Ping E connStr w = (ping_res E connStr w, emit (DbPing connStr) w)"

definition db_Close :: "string \<Rightarrow> world \<Rightarrow> world" where
  "db_Close connStr w = emit (DbClose connStr) w"

text \<open>\<^verbatim>\<open>exec.Command(name, args...).Run()\<close>: the command runs to its end; its output goes
  straight to the terminal and is not part of the model.\<close>

definition exec_Run :: "env \<Rightarrow> string \<Rightarrow> string list \<Rightarrow> world \<Rightarrow> error option \<times> world" where
  "exec_Run E name args w =
     (fst (run_res E name args w),
      (emit (CmdRun name args) w)\<lparr>files := snd (run_res E name args w)\<rparr>)"

subsection \<open>The file system calls of package \<^verbatim>\<open>os\<close>\<close>

text \<open>
  The node a name stands for. The empty name stands for none: every call on it fails
  with "no such file or directory".
\<close>

definition node_at :: "env \<Rightarrow> world \<Rightarrow> string \<Rightarrow> node option" where
  "node_at E w name = (if name = [] then None else files w (namei E name))"

text \<open>
  \<^verbatim>\<open>os.Stat\<close> answers with the node, with "does not exist", or with another error.
  \<^verbatim>\<open>os.IsNotExist\<close> holds of the second answer only (and not of \<^verbatim>\<open>nil\<close>).
\<close>

datatype stat_result = StatOk node | StatNotExist | StatErr error

definition os_Stat :: "env \<Rightarrow> string \<Rightarrow> world \<Rightarrow> stat_result \<times> world" where
  "os_Stat E name w =
     ((case stat_fault E name w of
         Some e \<Rightarrow> StatErr e
       | None \<Rightarrow> (case node_at E w name of
                    None \<Rightarrow> StatNotExist
                  | Some n \<Rightarrow> StatOk n)),
      emit (OsStat name) w)"

definition os_IsNotExist :: "stat_result \<Rightarrow> bool" where
  "os_IsNotExist r = (r = StatNotExist)"

text \<open>
  \<^verbatim>\<open>os.RemoveAll\<close> removes the name and everything below it. A name that does not
  exist is no error, and neither is the empty name, for which nothing is done.
\<close>

definition os_RemoveAll :: "env \<Rightarrow> string \<Rightarrow> world \<Rightarrow> error option \<times> world" where
  "os_RemoveAll E name w =
     (let w1 = emit (OsRemoveAll name) w in
      if name = [] then (None, w1)
      else
        (case (if node_at E w name = None then None else remove_fault E name w) of
           Some (e, left) \<Rightarrow> (Some e, w1\<lparr>files := left\<rparr>)
         | None \<Rightarrow>
             (None, w1\<lparr>files := (\<lambda>q. if prefix (namei E name) q then None else files w q)\<rparr>)))"

text \<open>
  \<^verbatim>\<open>os.MkdirAll\<close> creates the directory and every missing parent. An existing directory
  is no error; a file at the name or on the way to it is one, and so is the empty name.
\<close>

definition os_MkdirAll :: "env \<Rightarrow> string \<Rightarrow> nat \<Rightarrow> world \<Rightarrow> error option \<times> world" where
  "os_MkdirAll E name perm w =
     (let w1 = emit (OsMkdirAll name perm) w in
      if name = [] then (Some ''mkdir : no such file or directory'', w1)
      else
        (case node_at E w name of
           Some Dir \<Rightarrow> (None, w1)
         | Some File \<Rightarrow> (Some (''mkdir '' @ name @ '': not a directory''), w1)
         | None \<Rightarrow>
             if list_ex (\<lambda>q. files w q = Some File) (prefixes (namei E name))
             then (Some (''mkdir '' @ name @ '': not a directory''), w1)
             else
               (case mkdir_fault E name w of
                  Some (e, left) \<Rightarrow> (Some e, w1\<lparr>files := left\<rparr>)
                | None \<Rightarrow>
                    (None, w1\<lparr>files := (\<lambda>q. if prefix q (namei E name) \<and> files w q = None
                                               then Some Dir else files w q)\<rparr>))))"

section \<open>The orchestrator of \<^verbatim>\<open>main.go\<close>\<close>

text \<open>
  The three package constants. Each variant of the program fixes them to its own
  connection strings; the functions below take them as a parameter, so that what is
  proved holds for every choice.
\<close>

record config =
  sourceDB :: string
  destinationDB :: string
  jobs :: string

definition main_go_config :: config where
  "main_go_config =
     \<lparr>sourceDB = ''your_source_db_connection_string'',
      destinationDB = ''your_destination_db_connection_string'',
      jobs = ''4''\<rparr>"

text \<open>The pictographs that start the log lines, as their UTF-8 bytes.\<close>

definition sym_cross :: string where
  "sym_cross = [CHR 0xE2, CHR 0x9D, CHR 0x8C]"

definition sym_check :: string where
  "sym_check = [CHR 0xE2, CHR 0x9C, CHR 0x85]"

definition sym_cycle :: string where
  "sym_cycle = [CHR 0xF0, CHR 0x9F, CHR 0x94, CHR 0x84]"

definition sym_bin :: string where
  "sym_bin = [CHR 0xF0, CHR 0x9F, CHR 0x97, CHR 0x91, CHR 0xEF, CHR 0xB8, CHR 0x8F]"

definition sym_folder :: string where
  "sym_folder = [CHR 0xF0, CHR 0x9F, CHR 0x93, CHR 0x81]"

definition sym_package :: string where
  "sym_package = [CHR 0xF0, CHR 0x9F, CHR 0x93, CHR 0xA6]"

definition sym_tools :: string where
  "sym_tools = [CHR 0xF0, CHR 0x9F, CHR 0x9B, CHR 0xA0, CHR 0xEF, CHR 0xB8, CHR 0x8F]"

definition sym_pause :: string where
  "sym_pause = [CHR 0xE2, CHR 0x8F, CHR 0xB8, CHR 0xEF, CHR 0xB8, CHR 0x8F]"

definition testDBConnection :: "env \<Rightarrow> string \<Rightarrow> string \<Rightarrow> world \<Rightarrow> bool \<times> world" where
  "testDBConnection E connStr dbType w =
     (let w1 = log_Print (sym_cycle @ '' Testing '' @ dbType @ '' database connection...'') w in
      case sql_Open E ''postgres'' connStr w1 of
        (Some e, w2) \<Rightarrow>
          (False, log_Print (sym_cross @ '' '' @ dbType @ '' Database connection error: '' @ e) w2)
      | (None, w2) \<Rightarrow>
          (case db_Ping E connStr w2 of
             (Some e, w3) \<Rightarrow>
               (False, db_Close connStr
                  (log_Print (sym_cross @ '' '' @ dbType @ '' Database is unreachable: '' @ e) w3))
           | (None, w3) \<Rightarrow>
               (True, db_Close connStr
                  (log_Print (sym_check @ '' '' @ dbType @ '' Database connection successful!'') w3))))"

text \<open>The text of the cleanup script, a raw string literal of the source: \<open>nl\<close> is
  the line feed, \<open>tab\<close> the tabulator and \<open>sq\<close> the single quote.\<close>

definition nl :: string where
  "nl = [CHR 0x0A]"

definition tab :: string where
  "tab = [CHR 0x09]"

definition sq :: string where
  "sq = [CHR 0x27]"

definition cleanSQL :: string where
  "cleanSQL = concat
   [nl,
    tab, ''DO $$ DECLARE'', nl,
    tab, tab, ''r RECORD;'', nl,
    tab, ''BEGIN'', nl,
    tab, tab, ''EXECUTE '', sq, ''SET session_replication_role = '', sq, sq, ''replica'', sq, sq, '';'', sq, '';'', nl,
    tab, tab, ''FOR r IN (SELECT tablename FROM pg_tables WHERE schemaname = '', sq, ''public'', sq, '') LOOP'', nl,
    tab, tab, tab, ''EXECUTE '', sq, ''DROP TABLE IF EXISTS public.'', sq, '' || r.tablename || '', sq, '' CASCADE;'', sq, '';'', nl,
    tab, tab, ''END LOOP;'', nl,
    tab, tab, ''EXECUTE '', sq, ''SET session_replication_role = '', sq, sq, ''origin'', sq, sq, '';'', sq, '';'', nl,
    tab, ''END $$;'', nl,
    tab]"

definition cleanDestinationDB :: "config \<Rightarrow> env \<Rightarrow> world \<Rightarrow> error option \<times> world" where
  "cleanDestinationDB C E w =
     (let w1 = log_Print (sym_bin @ '' Cleaning the destination database...'') w in
      exec_Run E ''psql'' [destinationDB C, ''-c'', cleanSQL] w1)"

text \<open>The mode \<^verbatim>\<open>0755\<close> is octal, 493.\<close>

definition resetBackupDir :: "env \<Rightarrow> string \<Rightarrow> world \<Rightarrow> error option \<times> world" where
  "resetBackupDir E dumpDir w =
     (let w1 = log_Print (sym_bin @ '' Removing existing backup directory...'') w in
      case os_RemoveAll E dumpDir w1 of
        (Some e, w2) \<Rightarrow> (Some (''failed to remove backup directory: '' @ e), w2)
      | (None, w2) \<Rightarrow>
          (let w3 = log_Print (sym_folder @ '' Creating a new backup directory...'') w2 in
           os_MkdirAll E dumpDir 493 w3))"

definition dumpSchema :: "config \<Rightarrow> env \<Rightarrow> string \<Rightarrow> world \<Rightarrow> error option \<times> world" where
  "dumpSchema C E dumpDir w =
     (let w1 = log_Print (sym_package @ '' Dumping schema only...'') w in
      exec_Run E ''pg_dump''
        [''--format=directory'', ''--no-owner'', ''--no-acl'', ''--schema-only'',
         ''--dbname='' @ sourceDB C, ''--file='' @ dumpDir] w1)"

definition restoreSchema :: "config \<Rightarrow> env \<Rightarrow> string \<Rightarrow> world \<Rightarrow> error option \<times> world" where
  "restoreSchema C E dumpDir w =
     (let w1 = log_Print (sym_tools @ '' Restoring schema...'') w in
      exec_Run E ''pg_restore''
        [''--clean'', ''--if-exists'', ''--jobs='' @ jobs C, ''--no-owner'', ''--no-acl'',
         ''--schema-only'', ''--dbname='' @ destinationDB C, dumpDir] w1)"

definition disableConstraints :: "config \<Rightarrow> env \<Rightarrow> world \<Rightarrow> error option \<times> world" where
  "disableConstraints C E w =
     (let w1 = log_Print (sym_pause @ '' Disabling foreign key constraints...'') w in
      exec_Run E ''psql''
        [destinationDB C, ''-c'', ''SET session_replication_role = '' @ sq @ ''replica'' @ sq @ '';''] w1)"

definition dumpData :: "config \<Rightarrow> env \<Rightarrow> string \<Rightarrow> world \<Rightarrow> error option \<times> world" where
  "dumpData C E dumpDir w =
     (let w1 = log_Print (sym_package @ '' Dumping data only...'') w in
      exec_Run E ''pg_dump''
        [''--format=directory'', ''--no-owner'', ''--no-acl'', ''--data-only'',
         ''--jobs='' @ jobs C, ''--dbname='' @ sourceDB C, ''--file='' @ dumpDir] w1)"

definition restoreDataWithTransaction ::
  "config \<Rightarrow> env \<Rightarrow> string \<Rightarrow> world \<Rightarrow> error option \<times> world" where
  "restoreDataWithTransaction C E dumpDir w =
     (let w1 = log_Print (sym_tools @ '' Restoring data within a transaction...'') w in
      case exec_Run E ''pg_restore''
             [''--disable-triggers'', ''--jobs='' @ jobs C, ''--no-owner'', ''--no-acl'',
              ''--data-only'', ''--dbname='' @ destinationDB C, dumpDir] w1 of
        (Some e, w2) \<Rightarrow> (Some (''data restore failed: '' @ e), w2)
      | (None, w2) \<Rightarrow> (None, w2))"

definition enableConstraints :: "config \<Rightarrow> env \<Rightarrow> world \<Rightarrow> error option \<times> world" where
  "enableConstraints C E w =
     (let w1 = log_Print (sym_check @ '' Re-enabling foreign key constraints...'') w in
      exec_Run E ''psql''
        [destinationDB C, ''-c'', ''SET session_replication_role = '' @ sq @ ''origin'' @ sq @ '';''] w1)"

text \<open>
  Step 1 of \<^verbatim>\<open>main\<close>, the condition
  \<^verbatim>\<open>!testDBConnection(sourceDB, "Source") || !testDBConnection(destinationDB, "Destination")\<close>:
  the right operand of \<^verbatim>\<open>||\<close> is evaluated only when the left one is false.
\<close>

definition connectionTestFailed :: "config \<Rightarrow> env \<Rightarrow> world \<Rightarrow> bool \<times> world" where
  "connectionTestFailed C E w =
     (case testDBConnection E (sourceDB C) ''Source'' w of
        (False, w1) \<Rightarrow> (True, w1)
      | (True, w1) \<Rightarrow>
          (case testDBConnection E (destinationDB C) ''Destination'' w1 of
             (ok, w2) \<Rightarrow> (\<not> ok, w2)))"

text \<open>\<^verbatim>\<open>main\<close> returns the exit status of the process with the final world: 1 after
  \<^verbatim>\<open>log.Fatal\<close>, 0 when it returns.\<close>

definition main :: "config \<Rightarrow> env \<Rightarrow> world \<Rightarrow> nat \<times> world" where
  "main C E w =
     (case os_Getwd E w of
        (Inl e, w0) \<Rightarrow>
          (1, log_Fatal (sym_cross @ '' Unable to get current working directory: '' @ e) w0)
      | (Inr workingDir, w0) \<Rightarrow>
     (let dumpDir = filepath_Join workingDir ''backup_dir'';
          w1 = log_Print (''Using '' @ dumpDir @ '' as the backup directory...'') w0 in
      case connectionTestFailed C E w1 of
        (True, w2) \<Rightarrow>
          (1, log_Fatal (sym_cross @ '' Database connection test failed. Migration aborted.'') w2)
      | (False, w2) \<Rightarrow>
     (case cleanDestinationDB C E w2 of
        (Some e, w3) \<Rightarrow>
          (1, log_Fatal (sym_cross @ '' Failed to clean destination database: '' @ e) w3)
      | (None, w3) \<Rightarrow>
     (case resetBackupDir E dumpDir w3 of
        (Some e, w4) \<Rightarrow>
          (1, log_Fatal (sym_cross @ '' Failed to reset backup directory: '' @ e) w4)
      | (None, w4) \<Rightarrow>
     (case dumpSchema C E dumpDir w4 of
        (Some e, w5) \<Rightarrow> (1, log_Fatal (sym_cross @ '' Schema dump failed: '' @ e) w5)
      | (None, w5) \<Rightarrow>
     (case restoreSchema C E dumpDir w5 of
        (Some e, w6) \<Rightarrow> (1, log_Fatal (sym_cross @ '' Schema restoration failed: '' @ e) w6)
      | (None, w6) \<Rightarrow>
     (case disableConstraints C E w6 of
        (Some e, w7) \<Rightarrow> (1, log_Fatal (sym_cross @ '' Error disabling constraints: '' @ e) w7)
      | (None, w7) \<Rightarrow>
     (case dumpData C E dumpDir w7 of
        (Some e, w8) \<Rightarrow> (1, log_Fatal (sym_cross @ '' Data dump failed: '' @ e) w8)
      | (None, w8) \<Rightarrow>
     (case restoreDataWithTransaction C E dumpDir w8 of
        (Some e, w9) \<Rightarrow> (1, log_Fatal (sym_cross @ '' Data restoration failed: '' @ e) w9)
      | (None, w9) \<Rightarrow>
     (case enableConstraints C E w9 of
        (Some e, w10) \<Rightarrow> (1, log_Fatal (sym_cross @ '' Error enabling constraints: '' @ e) w10)
      | (None, w10) \<Rightarrow>
          (0, log_Print (sym_check @ '' Database migration completed successfully!'') w10)))))))))))"

section \<open>The variant of \<^verbatim>\<open>part_000\<close>\<close>

text \<open>
  This file differs from \<^verbatim>\<open>main.go\<close> in its connection strings, in the cleanup script
  (which also drops sequences and enum types), in the guard of the data dump and in the
  transaction around the data restore. The other functions are those above.
\<close>

definition cleanSQL_part_000 :: string where
  "cleanSQL_part_000 = concat
   [nl,
    tab, ''DO $$ DECLARE'', nl,
    tab, tab, ''r RECORD;'', nl,
    tab, ''BEGIN'', nl,
    tab, tab, ''-- Disable foreign key constraints'', nl,
    tab, tab, ''EXECUTE '', sq, ''SET session_replication_role = '', sq, sq, ''replica'', sq, sq, '';'', sq, '';'', nl,
    nl,
    tab, tab, ''-- Drop all tables'', nl,
    tab, tab, ''FOR r IN (SELECT tablename FROM pg_tables WHERE schemaname = '', sq, ''public'', sq, '') LOOP'', nl,
    tab, tab, tab, ''EXECUTE '', sq, ''DROP TABLE IF EXISTS public.'', sq, '' || r.tablename || '', sq, '' CASCADE;'', sq, '';'', nl,
    tab, tab, ''END LOOP;'', nl,
    nl,
    tab, tab, ''-- Drop all sequences'', nl,
    tab, tab, ''FOR r IN (SELECT sequencename FROM pg_sequences WHERE schemaname = '', sq, ''public'', sq, '') LOOP'', nl,
    tab, tab, tab, ''EXECUTE '', sq, ''DROP SEQUENCE IF EXISTS public.'', sq, '' || r.sequencename || '', sq, '' CASCADE;'', sq, '';'', nl,
    tab, tab, ''END LOOP;'', nl,
    nl,
    tab, tab, ''-- Drop all enums'', nl,
    tab, tab, ''FOR r IN (SELECT typname FROM pg_type WHERE typcategory = '', sq, ''E'', sq, '' AND typnamespace = '', sq, ''public'', sq, ''::regnamespace) LOOP'', nl,
    tab, tab, tab, ''EXECUTE '', sq, ''DROP TYPE IF EXISTS public.'', sq, '' || r.typname || '', sq, '' CASCADE;'', sq, '';'', nl,
    tab, tab, ''END LOOP;'', nl,
    nl,
    tab, tab, ''-- Re-enable foreign key constraints'', nl,
    tab, tab, ''EXECUTE '', sq, ''SET session_replication_role = '', sq, sq, ''origin'', sq, sq, '';'', sq, '';'', nl,
    tab, ''END $$;'', nl,
    tab]"

definition cleanDestinationDB_part_000 :: "config \<Rightarrow> env \<Rightarrow> world \<Rightarrow> error option \<times> world" where
  "cleanDestinationDB_part_000 C E w =
     (let w1 = log_Print (sym_bin @ '' Cleaning the destination database...'') w in
      exec_Run E ''psql'' [destinationDB C, ''-c'', cleanSQL_part_000] w1)"

definition pg_dump_data_args :: "config \<Rightarrow> string \<Rightarrow> string list" where
  "pg_dump_data_args C dumpDir =
     [''--format=directory'', ''--no-owner'', ''--no-acl'', ''--data-only'',
      ''--jobs='' @ jobs C, ''--dbname='' @ sourceDB C, ''--file='' @ dumpDir]"

definition dumpData_part_000 :: "config \<Rightarrow> env \<Rightarrow> string \<Rightarrow> world \<Rightarrow> error option \<times> world" where
  "dumpData_part_000 C E dumpDir w =
     (let w1 = log_Print (sym_package @ '' Dumping data only...'') w in
      case os_Stat E dumpDir w1 of
        (st, w2) \<Rightarrow>
          if \<not> os_IsNotExist st
          then
            (let w3 = log_Print (sym_bin @ '' Removing backup directory before dumping data...'') w2 in
             case os_RemoveAll E dumpDir w3 of
               (Some e, w4) \<Rightarrow>
                 (Some (''failed to remove backup directory before data dump: '' @ e), w4)
             | (None, w4) \<Rightarrow> exec_Run E ''pg_dump'' (pg_dump_data_args C dumpDir) w4)
          else exec_Run E ''pg_dump'' (pg_dump_data_args C dumpDir) w2)"

definition pg_restore_data_args :: "config \<Rightarrow> string \<Rightarrow> string list" where
  "pg_restore_data_args C dumpDir =
     [''--disable-triggers'', ''--jobs='' @ jobs C, ''--no-owner'', ''--no-acl'',
      ''--data-only'', ''--dbname='' @ destinationDB C, dumpDir]"

definition restoreDataWithTransaction_part_000 ::
  "config \<Rightarrow> env \<Rightarrow> string \<Rightarrow> world \<Rightarrow> error option \<times> world" where
  "restoreDataWithTransaction_part_000 C E dumpDir w =
     (let w1 = log_Print (sym_tools @ '' Restoring data within a transaction...'') w in
      case exec_Run E ''psql'' [destinationDB C, ''-c'', ''BEGIN;''] w1 of
        (Some e, w2) \<Rightarrow> (Some (''failed to start transaction: '' @ e), w2)
      | (None, w2) \<Rightarrow>
          (case exec_Run E ''pg_restore'' (pg_restore_data_args C dumpDir) w2 of
             (Some e, w3) \<Rightarrow>
               (case exec_Run E ''psql'' [destinationDB C, ''-c'', ''ROLLBACK;''] w3 of
                  (ignored, w4) \<Rightarrow> (Some (''data restore failed: '' @ e), w4))
           | (None, w3) \<Rightarrow> exec_Run E ''psql'' [destinationDB C, ''-c'', ''COMMIT;''] w3))"

definition main_part_000 :: "config \<Rightarrow> env \<Rightarrow> world \<Rightarrow> nat \<times> world" where
  "main_part_000 C E w =
     (case os_Getwd E w of
        (Inl e, w0) \<Rightarrow>
          (1, log_Fatal (sym_cross @ '' Unable to get current working directory: '' @ e) w0)
      | (Inr workingDir, w0) \<Rightarrow>
     (let dumpDir = filepath_Join workingDir ''backup_dir'';
          w1 = log_Print (''Using '' @ dumpDir @ '' as the backup directory...'') w0 in
      case connectionTestFailed C E w1 of
        (True, w2) \<Rightarrow>
          (1, log_Fatal (sym_cross @ '' Database connection test failed. Migration aborted.'') w2)
      | (False, w2) \<Rightarrow>
     (case cleanDestinationDB_part_000 C E w2 of
        (Some e, w3) \<Rightarrow>
          (1, log_Fatal (sym_cross @ '' Failed to clean destination database: '' @ e) w3)
      | (None, w3) \<Rightarrow>
     (case resetBackupDir E dumpDir w3 of
        (Some e, w4) \<Rightarrow>
          (1, log_Fatal (sym_cross @ '' Failed to reset backup directory: '' @ e) w4)
      | (None, w4) \<Rightarrow>
     (case dumpSchema C E dumpDir w4 of
        (Some e, w5) \<Rightarrow> (1, log_Fatal (sym_cross @ '' Schema dump failed: '' @ e) w5)
      | (None, w5) \<Rightarrow>
     (case restoreSchema C E dumpDir w5 of
        (Some e, w6) \<Rightarrow> (1, log_Fatal (sym_cross @ '' Schema restoration failed: '' @ e) w6)
      | (None, w6) \<Rightarrow>
     (case disableConstraints C E w6 of
        (Some e, w7) \<Rightarrow> (1, log_Fatal (sym_cross @ '' Error disabling constraints: '' @ e) w7)
      | (None, w7) \<Rightarrow>
     (case dumpData_part_000 C E dumpDir w7 of
        (Some e, w8) \<Rightarrow> (1, log_Fatal (sym_cross @ '' Data dump failed: '' @ e) w8)
      | (None, w8) \<Rightarrow>
     (case restoreDataWithTransaction_part_000 C E dumpDir w8 of
        (Some e, w9) \<Rightarrow> (1, log_Fatal (sym_cross @ '' Data restoration failed: '' @ e) w9)
      | (None, w9) \<Rightarrow>
     (case enableConstraints C E w9 of
        (Some e, w10) \<Rightarrow> (1, log_Fatal (sym_cross @ '' Error enabling constraints: '' @ e) w10)
      | (None, w10) \<Rightarrow>
          (0, log_Print (sym_check @ '' Database migration completed successfully!'') w10)))))))))))"

section \<open>The variant of \<^verbatim>\<open>part_001\<close>\<close>

text \<open>The data-only migration: connectivity check, directory reset, data dump, data
  restore. \<^verbatim>\<open>testDBConnection\<close>, \<^verbatim>\<open>resetBackupDir\<close> and \<^verbatim>\<open>dumpData\<close> are those of
  \<^verbatim>\<open>main.go\<close>.\<close>

definition restoreData :: "config \<Rightarrow> env \<Rightarrow> string \<Rightarrow> world \<Rightarrow> error option \<times> world" where
  "restoreData C E dumpDir w =
     (let w1 = log_Print (sym_tools @ '' Restoring data...'') w in
      exec_Run E ''pg_restore''
        [''--jobs='' @ jobs C, ''--no-owner'', ''--no-acl'', ''--data-only'',
         ''--dbname='' @ destinationDB C, dumpDir] w1)"

definition main_part_001 :: "config \<Rightarrow> env \<Rightarrow> world \<Rightarrow> nat \<times> world" where
  "main_part_001 C E w =
     (case os_Getwd E w of
        (Inl e, w0) \<Rightarrow>
          (1, log_Fatal (sym_cross @ '' Unable to get current working directory: '' @ e) w0)
      | (Inr workingDir, w0) \<Rightarrow>
     (let dumpDir = filepath_Join workingDir ''backup_dir'';
          w1 = log_Print (''Using '' @ dumpDir @ '' as the backup directory...'') w0 in
      case connectionTestFailed C E w1 of
        (True, w2) \<Rightarrow>
          (1, log_Fatal (sym_cross @ '' Database connection test failed. Migration aborted.'') w2)
      | (False, w2) \<Rightarrow>
     (case resetBackupDir E dumpDir w2 of
        (Some e, w3) \<Rightarrow>
          (1, log_Fatal (sym_cross @ '' Failed to reset backup directory: '' @ e) w3)
      | (None, w3) \<Rightarrow>
     (case dumpData C E dumpDir w3 of
        (Some e, w4) \<Rightarrow> (1, log_Fatal (sym_cross @ '' Data dump failed: '' @ e) w4)
      | (None, w4) \<Rightarrow>
     (case restoreData C E dumpDir w4 of
        (Some e, w5) \<Rightarrow> (1, log_Fatal (sym_cross @ '' Data restoration failed: '' @ e) w5)
      | (None, w5) \<Rightarrow>
          (0, log_Print (sym_check @ '' Database data migration completed successfully!'') w5))))))"

section \<open>The cleanup script\<close>

text \<open>
  The script that \<^verbatim>\<open>cleanDestinationDB\<close> hands to \<^verbatim>\<open>psql -c\<close> is a PL/pgSQL block. It is
  embedded here over the part of the catalog it reads: the tables (\<^verbatim>\<open>pg_tables\<close>), the
  sequences (\<^verbatim>\<open>pg_sequences\<close>) and the enum types (\<^verbatim>\<open>pg_type\<close> with category \<^verbatim>\<open>E\<close>), each
  with its schema and name, and the dependencies between them (\<^verbatim>\<open>pg_depend\<close>, as pairs of
  the dependent and the referenced object) that \<^verbatim>\<open>CASCADE\<close> follows. Dependencies of parts
  of an object (columns, constraints, defaults) are below this model. Names are taken to be
  plain lower-case identifiers, for which the text spliced after \<^verbatim>\<open>public.\<close> denotes the
  object of that name.
\<close>

datatype kind = Table | Sequence | EnumType

type_synonym obj = "kind \<times> string \<times> string"

record db =
  catalog :: "obj list"
  pg_depend :: "(obj \<times> obj) list"

text \<open>The statements the script builds, with the text that \<^verbatim>\<open>EXECUTE\<close> receives.\<close>

datatype stmt = SetRole string | DropTable string | DropSequence string | DropType string

fun sql_text :: "stmt \<Rightarrow> string" where
  "sql_text (SetRole r) = ''SET session_replication_role = '' @ sq @ r @ sq @ '';''"
| "sql_text (DropTable n) = ''DROP TABLE IF EXISTS public.'' @ n @ '' CASCADE;''"
| "sql_text (DropSequence n) = ''DROP SEQUENCE IF EXISTS public.'' @ n @ '' CASCADE;''"
| "sql_text (DropType n) = ''DROP TYPE IF EXISTS public.'' @ n @ '' CASCADE;''"

text \<open>A session: the database, the setting \<^verbatim>\<open>session_replication_role\<close>, and the
  statements executed so far.\<close>

record session =
  store :: db
  session_replication_role :: string
  executed :: "stmt list"

text \<open>
  \<^verbatim>\<open>DROP ... IF EXISTS ... CASCADE\<close>: nothing happens when the object is not there;
  otherwise it goes, and with it every object that depends on it, directly or not.
\<close>

definition doomed :: "db \<Rightarrow> obj \<Rightarrow> obj \<Rightarrow> bool" where
  "doomed d t x = (x = t \<or> (x, t) \<in> (set (pg_depend d))\<^sup>+)"

definition drop_if_exists_cascade :: "obj \<Rightarrow> db \<Rightarrow> db" where
  "drop_if_exists_cascade t d =
     (if t \<in> set (catalog d)
      then d\<lparr>catalog := filter (\<lambda>x. \<not> doomed d t x) (catalog d),
             pg_depend := filter (\<lambda>(a, b). \<not> doomed d t a \<and> \<not> doomed d t b) (pg_depend d)\<rparr>
      else d)"

text \<open>
  \<^verbatim>\<open>EXECUTE\<close> of one statement. The server may refuse any statement (privileges, locks):
  \<open>deny\<close> gives the error then, and the block is left with it.
\<close>

definition EXECUTE :: "(stmt \<Rightarrow> error option) \<Rightarrow> stmt \<Rightarrow> session \<Rightarrow> error + session" where
  "EXECUTE deny st s =
     (case deny st of
        Some e \<Rightarrow> Inl e
      | None \<Rightarrow>
          (case st of
             SetRole r \<Rightarrow>
               if r \<in> set [''origin'', ''replica'', ''local'']
               then Inr (s\<lparr>session_replication_role := r, executed := executed s @ [st]\<rparr>)
               else Inl (''invalid value for parameter session_replication_role: '' @ r)
           | DropTable n \<Rightarrow>
               Inr (s\<lparr>store := drop_if_exists_cascade (Table, ''public'', n) (store s),
                       executed := executed s @ [st]\<rparr>)
           | DropSequence n \<Rightarrow>
               Inr (s\<lparr>store := drop_if_exists_cascade (Sequence, ''public'', n) (store s),
                       executed := executed s @ [st]\<rparr>)
           | DropType n \<Rightarrow>
               Inr (s\<lparr>store := drop_if_exists_cascade (EnumType, ''public'', n) (store s),
                       executed := executed s @ [st]\<rparr>)))"

text \<open>\<^verbatim>\<open>FOR r IN (query) LOOP body END LOOP\<close>: the rows are those of the query when the loop
  starts; an error in the body leaves the loop.\<close>

fun FOR_LOOP :: "'r list \<Rightarrow> ('r \<Rightarrow> session \<Rightarrow> error + session) \<Rightarrow> session \<Rightarrow> error + session" where
  "FOR_LOOP [] body s = Inr s"
| "FOR_LOOP (r # rs) body s =
     (case body r s of
        Inl e \<Rightarrow> Inl e
      | Inr s' \<Rightarrow> FOR_LOOP rs body s')"

text \<open>The three queries, each with its \<^verbatim>\<open>WHERE\<close> clause on the schema \<^verbatim>\<open>public\<close>.\<close>

definition select_tablename :: "session \<Rightarrow> string list" where
  "select_tablename s =
     map (\<lambda>x. snd (snd x))
       (filter (\<lambda>x. fst x = Table \<and> fst (snd x) = ''public'') (catalog (store s)))"

definition select_sequencename :: "session \<Rightarrow> string list" where
  "select_sequencename s =
     map (\<lambda>x. snd (snd x))
       (filter (\<lambda>x. fst x = Sequence \<and> fst (snd x) = ''public'') (catalog (store s)))"

definition select_typname :: "session \<Rightarrow> string list" where
  "select_typname s =
     map (\<lambda>x. snd (snd x))
       (filter (\<lambda>x. fst x = EnumType \<and> fst (snd x) = ''public'') (catalog (store s)))"

text \<open>The block of \<^verbatim>\<open>main.go\<close>.\<close>

definition cleanSQL_block :: "(stmt \<Rightarrow> error option) \<Rightarrow> session \<Rightarrow> error + session" where
  "cleanSQL_block deny s =
     (case EXECUTE deny (SetRole ''replica'') s of
        Inl e \<Rightarrow> Inl e
      | Inr s1 \<Rightarrow>
     (case FOR_LOOP (select_tablename s1) (\<lambda>r. EXECUTE deny (DropTable r)) s1 of
        Inl e \<Rightarrow> Inl e
      | Inr s2 \<Rightarrow>
          EXECUTE deny (SetRole ''origin'') s2))"

text \<open>The block of \<^verbatim>\<open>part_000\<close>.\<close>

definition cleanSQL_part_000_block :: "(stmt \<Rightarrow> error option) \<Rightarrow> session \<Rightarrow> error + session" where
  "cleanSQL_part_000_block deny s =
     (case EXECUTE deny (SetRole ''replica'') s of
        Inl e \<Rightarrow> Inl e
      | Inr s1 \<Rightarrow>
     (case FOR_LOOP (select_tablename s1) (\<lambda>r. EXECUTE deny (DropTable r)) s1 of
        Inl e \<Rightarrow> Inl e
      | Inr s2 \<Rightarrow>
     (case FOR_LOOP (select_sequencename s2) (\<lambda>r. EXECUTE deny (DropSequence r)) s2 of
        Inl e \<Rightarrow> Inl e
      | Inr s3 \<Rightarrow>
     (case FOR_LOOP (select_typname s3) (\<lambda>r. EXECUTE deny (DropType r)) s3 of
        Inl e \<Rightarrow> Inl e
      | Inr s4 \<Rightarrow>
          EXECUTE deny (SetRole ''origin'') s4))))"

text \<open>
  The block runs in one transaction. When it ends with an error the transaction is rolled
  back, and with it the setting: the session is as it was. \<open>psql_c\<close> is the whole of
  \<^verbatim>\<open>psql -c script\<close>: a new session, the script, and the database that is left.
\<close>

definition session_after :: "(session \<Rightarrow> error + session) \<Rightarrow> session \<Rightarrow> session" where
  "session_after script s = (case script s of Inl e \<Rightarrow> s | Inr s' \<Rightarrow> s')"

definition psql_c :: "(session \<Rightarrow> error + session) \<Rightarrow> db \<Rightarrow> error option \<times> db" where
  "psql_c script d =
     (case script \<lparr>store = d, session_replication_role = ''origin'', executed = []\<rparr> of
        Inl e \<Rightarrow> (Some e, d)
      | Inr s \<Rightarrow> (None, store s))"

section \<open>The run as a fail-fast sequence of steps\<close>

text \<open>
  The specification describes the run as nine ordered steps, aborted at the first
  failure. The definitions of this section follow those words: a \<open>stage\<close> is a step
  together with its diagnostic (it answers \<open>None\<close> when the step succeeds and the fatal
  line when it fails), \<open>fail_fast\<close> runs stages in order up to the first failure, and
  \<open>thread\<close> is the world after a list of stages has run.
\<close>

type_synonym stage = "world \<Rightarrow> string option \<times> world"

fun fail_fast :: "stage list \<Rightarrow> world \<Rightarrow> nat \<times> world" where
  "fail_fast [] w = (0, w)"
| "fail_fast (s # ss) w =
     (case s w of
        (Some line, w') \<Rightarrow> (1, log_Fatal line w')
      | (None, w') \<Rightarrow> fail_fast ss w')"

fun thread :: "stage list \<Rightarrow> world \<Rightarrow> world" where
  "thread [] w = w"
| "thread (s # ss) w = thread ss (snd (s w))"

definition stage_of :: "string \<Rightarrow> (world \<Rightarrow> error option \<times> world) \<Rightarrow> stage" where
  "stage_of msg step w =
     (case step w of
        (Some e, w') \<Rightarrow> (Some (msg @ e), w')
      | (None, w') \<Rightarrow> (None, w'))"

definition connectivity_stage :: "string \<Rightarrow> (world \<Rightarrow> bool \<times> world) \<Rightarrow> stage" where
  "connectivity_stage msg test w =
     (case test w of
        (True, w') \<Rightarrow> (Some msg, w')
      | (False, w') \<Rightarrow> (None, w'))"

definition diagnostics :: "string list" where
  "diagnostics =
     [sym_cross @ '' Database connection test failed. Migration aborted.'',
      sym_cross @ '' Failed to clean destination database: '',
      sym_cross @ '' Failed to reset backup directory: '',
      sym_cross @ '' Schema dump failed: '',
      sym_cross @ '' Schema restoration failed: '',
      sym_cross @ '' Error disabling constraints: '',
      sym_cross @ '' Data dump failed: '',
      sym_cross @ '' Data restoration failed: '',
      sym_cross @ '' Error enabling constraints: '']"

definition nine_steps :: "config \<Rightarrow> env \<Rightarrow> string \<Rightarrow> stage list" where
  "nine_steps C E dumpDir =
     [connectivity_stage (diagnostics ! 0) (connectionTestFailed C E),
      stage_of (diagnostics ! 1) (cleanDestinationDB C E),
      stage_of (diagnostics ! 2) (resetBackupDir E dumpDir),
      stage_of (diagnostics ! 3) (dumpSchema C E dumpDir),
      stage_of (diagnostics ! 4) (restoreSchema C E dumpDir),
      stage_of (diagnostics ! 5) (disableConstraints C E),
      stage_of (diagnostics ! 6) (dumpData C E dumpDir),
      stage_of (diagnostics ! 7) (restoreDataWithTransaction C E dumpDir),
      stage_of (diagnostics ! 8) (enableConstraints C E)]"

definition report :: "nat \<times> world \<Rightarrow> nat \<times> world" where
  "report r =
     (case r of
        (code, w) \<Rightarrow>
          if code = 0
          then (0, log_Print (sym_check @ '' Database migration completed successfully!'') w)
          else (code, w))"

text \<open>The steps of the two other variants.\<close>

definition nine_steps_part_000 :: "config \<Rightarrow> env \<Rightarrow> string \<Rightarrow> stage list" where
  "nine_steps_part_000 C E dumpDir =
     [connectivity_stage (diagnostics ! 0) (connectionTestFailed C E),
      stage_of (diagnostics ! 1) (cleanDestinationDB_part_000 C E),
      stage_of (diagnostics ! 2) (resetBackupDir E dumpDir),
      stage_of (diagnostics ! 3) (dumpSchema C E dumpDir),
      stage_of (diagnostics ! 4) (restoreSchema C E dumpDir),
      stage_of (diagnostics ! 5) (disableConstraints C E),
      stage_of (diagnostics ! 6) (dumpData_part_000 C E dumpDir),
      stage_of (diagnostics ! 7) (restoreDataWithTransaction_part_000 C E dumpDir),
      stage_of (diagnostics ! 8) (enableConstraints C E)]"

definition four_steps_part_001 :: "config \<Rightarrow> env \<Rightarrow> string \<Rightarrow> stage list" where
  "four_steps_part_001 C E dumpDir =
     [connectivity_stage (diagnostics ! 0) (connectionTestFailed C E),
      stage_of (diagnostics ! 2) (resetBackupDir E dumpDir),
      stage_of (diagnostics ! 6) (dumpData C E dumpDir),
      stage_of (diagnostics ! 7) (restoreData C E dumpDir)]"

definition report_part_001 :: "nat \<times> world \<Rightarrow> nat \<times> world" where
  "report_part_001 r =
     (case r of
        (code, w) \<Rightarrow>
          if code = 0
          then (0, log_Print (sym_check @ '' Database data migration completed successfully!'') w)
          else (code, w))"

section \<open>Observations on traces\<close>

text \<open>The events a run has added to the trace, the events of a connectivity check of one
  endpoint, external commands, and changes of the file system.\<close>

definition new_events :: "world \<Rightarrow> world \<Rightarrow> event list" where
  "new_events w w' = drop (length (trace w)) (trace w')"

fun probe_of :: "string \<Rightarrow> event \<Rightarrow> bool" where
  "probe_of c (LogLine msg) = True"
| "probe_of c (SqlOpen driver c') = (driver = ''postgres'' \<and> c' = c)"
| "probe_of c (DbPing c') = (c' = c)"
| "probe_of c (DbClose c') = (c' = c)"
| "probe_of c ev = False"

fun is_command :: "event \<Rightarrow> bool" where
  "is_command (CmdRun name args) = True"
| "is_command ev = False"

fun is_file_change :: "event \<Rightarrow> bool" where
  "is_file_change (OsRemoveAll name) = True"
| "is_file_change (OsMkdirAll name perm) = True"
| "is_file_change ev = False"

section \<open>Concrete environments and databases\<close>

text \<open>A name resolution that splits at the slash, an environment in which every call
  succeeds, and one in which the schema restore exits with a failure.\<close>

definition unix_namei :: "string \<Rightarrow> path" where
  "unix_namei s =
     filter (\<lambda>x. x \<noteq> [])
       (foldr (\<lambda>c acc. if c = CHR ''/'' then [] # acc
                        else (case acc of [] \<Rightarrow> [[c]] | a # as \<Rightarrow> (c # a) # as)) s [])"

definition quiet_env :: env where
  "quiet_env =
     \<lparr>getwd_res = (\<lambda>w. Inr ''/srv/migrate''),
      namei = unix_namei,
      open_res = (\<lambda>driver connStr w. None),
      ping_res = (\<lambda>connStr w. None),
      stat_fault = (\<lambda>name w. None),
      remove_fault = (\<lambda>name w. None),
      mkdir_fault = (\<lambda>name w. None),
      run_res = (\<lambda>name args w. (None, files w))\<rparr>"

definition schema_restore_fails_env :: env where
  "schema_restore_fails_env =
     quiet_env\<lparr>run_res := (\<lambda>name args w.
        (if name = ''pg_restore'' \<and> ''--schema-only'' \<in> set args
         then Some ''exit status 1'' else None, files w))\<rparr>"

definition start_world :: world where
  "start_world =
     \<lparr>files = (\<lambda>p. if p = [] \<or> p = [''srv''] \<or> p = [''srv'', ''migrate'']
                     then Some Dir else None),
      trace = []\<rparr>"

fun commands :: "event list \<Rightarrow> string list" where
  "commands [] = []"
| "commands (CmdRun name args # evs) = name # commands evs"
| "commands (ev # evs) = commands evs"

text \<open>Environments in which one endpoint does not answer the ping.\<close>

definition source_down_env :: env where
  "source_down_env =
     quiet_env\<lparr>ping_res := (\<lambda>connStr w.
        if connStr = ''your_source_db_connection_string''
        then Some ''dial tcp: connection refused'' else None)\<rparr>"

definition destination_down_env :: env where
  "destination_down_env =
     quiet_env\<lparr>ping_res := (\<lambda>connStr w.
        if connStr = ''your_destination_db_connection_string''
        then Some ''dial tcp: connection refused'' else None)\<rparr>"

fun pinged :: "event list \<Rightarrow> string list" where
  "pinged [] = []"
| "pinged (DbPing connStr # evs) = connStr # pinged evs"
| "pinged (ev # evs) = pinged evs"

text \<open>Environments for the data restore of \<^verbatim>\<open>part_000\<close>: one in which the restore tool
  and the rollback both fail, one in which only the commit fails.\<close>

definition data_restore_fails_env :: env where
  "data_restore_fails_env =
     quiet_env\<lparr>run_res := (\<lambda>name args w.
        (if name = ''pg_restore'' \<and> ''--data-only'' \<in> set args then Some ''exit status 1''
         else if name = ''psql'' \<and> ''ROLLBACK;'' \<in> set args then Some ''exit status 2''
         else None, files w))\<rparr>"

definition commit_fails_env :: env where
  "commit_fails_env =
     quiet_env\<lparr>run_res := (\<lambda>name args w.
        (if name = ''psql'' \<and> ''COMMIT;'' \<in> set args then Some ''exit status 2''
         else None, files w))\<rparr>"

text \<open>A world in which the backup directory is left over from an earlier run.\<close>

definition used_world :: world where
  "used_world =
     \<lparr>files = (\<lambda>p. if p = [] \<or> p = [''srv''] \<or> p = [''srv'', ''migrate'']
                       \<or> p = [''srv'', ''migrate'', ''backup_dir'']
                     then Some Dir
                     else if p = [''srv'', ''migrate'', ''backup_dir'', ''toc.dat'']
                     then Some File else None),
      trace = []\<rparr>"

text \<open>A server that refuses nothing, and two databases: one with objects in \<^verbatim>\<open>public\<close> and an
  independent table elsewhere, one in which a table of another schema inherits from a
  table of \<^verbatim>\<open>public\<close>.\<close>

definition permit_all :: "stmt \<Rightarrow> error option" where
  "permit_all st = None"

definition shop_db :: db where
  "shop_db =
     \<lparr>catalog = [(Table, ''public'', ''users''), (Table, ''public'', ''orders''),
                 (Sequence, ''public'', ''users_id_seq''), (Sequence, ''public'', ''invoice_no''),
                 (EnumType, ''public'', ''mood''), (Table, ''audit'', ''log'')],
      pg_depend = [((Sequence, ''public'', ''users_id_seq''), (Table, ''public'', ''users''))]\<rparr>"

definition inherit_db :: db where
  "inherit_db =
     \<lparr>catalog = [(Table, ''public'', ''parent''), (Table, ''audit'', ''child'')],
      pg_depend = [((Table, ''audit'', ''child''), (Table, ''public'', ''parent''))]\<rparr>"

definition empty_db :: db where
  "empty_db = \<lparr>catalog = [], pg_depend = []\<rparr>"

definition shop_session :: session where
  "shop_session = \<lparr>store = shop_db, session_replication_role = ''origin'', executed = []\<rparr>"

section \<open>Properties of the orchestration\<close>

subsection \<open>The order of the steps\<close>

lemma fail_fast_all_ok:
  "(\<forall>i<length ss. fst ((ss ! i) (thread (take i ss) w)) = None) \<Longrightarrow>
   fail_fast ss w = (0, thread ss w)"
proof (induction ss arbitrary: w)
  case Nil
  then show ?case by simp
next
  case (Cons s ss)
  from Cons.prems have h0: "fst (s w) = None" by force
  have "\<forall>i<length ss. fst ((ss ! i) (thread (take i ss) (snd (s w)))) = None"
  proof (intro allI impI)
    fix i assume "i < length ss"
    then have "fst (((s # ss) ! Suc i) (thread (take (Suc i) (s # ss)) w)) = None"
      using Cons.prems by (metis Suc_less_eq length_Cons)
    then show "fst ((ss ! i) (thread (take i ss) (snd (s w)))) = None" by simp
  qed
  then have "fail_fast ss (snd (s w)) = (0, thread ss (snd (s w)))" by (rule Cons.IH)
  with h0 show ?case by (cases "s w") simp
qed

lemma fail_fast_first_failure:
  "k < length ss \<Longrightarrow>
   (\<forall>i<k. fst ((ss ! i) (thread (take i ss) w)) = None) \<Longrightarrow>
   fst ((ss ! k) (thread (take k ss) w)) = Some line \<Longrightarrow>
   fail_fast ss w = (1, log_Fatal line (thread (take (Suc k) ss) w))"
proof (induction ss arbitrary: w k)
  case Nil
  then show ?case by simp
next
  case (Cons s ss)
  show ?case
  proof (cases k)
    case 0
    with Cons.prems show ?thesis by (cases "s w") simp
  next
    case (Suc j)
    from Cons.prems Suc have h0: "fst (s w) = None" by force
    have a: "j < length ss" using Cons.prems Suc by simp
    have b: "\<forall>i<j. fst ((ss ! i) (thread (take i ss) (snd (s w)))) = None"
    proof (intro allI impI)
      fix i assume "i < j"
      then have "fst (((s # ss) ! Suc i) (thread (take (Suc i) (s # ss)) w)) = None"
        using Cons.prems Suc by (metis Suc_less_eq)
      then show "fst ((ss ! i) (thread (take i ss) (snd (s w)))) = None" by simp
    qed
    have c: "fst ((ss ! j) (thread (take j ss) (snd (s w)))) = Some line"
      using Cons.prems Suc by simp
    have "fail_fast ss (snd (s w)) = (1, log_Fatal line (thread (take (Suc j) ss) (snd (s w))))"
      using a b c by (rule Cons.IH)
    with h0 Suc show ?thesis by (cases "s w") simp
  qed
qed

lemma report_nil:
  "report (fail_fast [] w) =
     (0, log_Print (sym_check @ '' Database migration completed successfully!'') w)"
  by (simp add: report_def)

lemma report_stage_of:
  "report (fail_fast (stage_of msg step # ss) w) =
     (case step w of
        (Some e, w') \<Rightarrow> (1, log_Fatal (msg @ e) w')
      | (None, w') \<Rightarrow> report (fail_fast ss w'))"
  by (simp add: stage_of_def report_def split: prod.splits option.splits)

lemma report_connectivity_stage:
  "report (fail_fast (connectivity_stage msg test # ss) w) =
     (case test w of
        (True, w') \<Rightarrow> (1, log_Fatal msg w')
      | (False, w') \<Rightarrow> report (fail_fast ss w'))"
  by (simp add: connectivity_stage_def report_def split: prod.splits bool.splits)

lemma diagnostics_nth:
  "diagnostics ! 0 = sym_cross @ '' Database connection test failed. Migration aborted.''"
  "diagnostics ! 1 = sym_cross @ '' Failed to clean destination database: ''"
  "diagnostics ! 2 = sym_cross @ '' Failed to reset backup directory: ''"
  "diagnostics ! 3 = sym_cross @ '' Schema dump failed: ''"
  "diagnostics ! 4 = sym_cross @ '' Schema restoration failed: ''"
  "diagnostics ! 5 = sym_cross @ '' Error disabling constraints: ''"
  "diagnostics ! 6 = sym_cross @ '' Data dump failed: ''"
  "diagnostics ! 7 = sym_cross @ '' Data restoration failed: ''"
  "diagnostics ! 8 = sym_cross @ '' Error enabling constraints: ''"
  by (simp_all add: diagnostics_def)

lemma main_as_fail_fast:
  "main C E w =
     (case os_Getwd E w of
        (Inl e, w0) \<Rightarrow>
          (1, log_Fatal (sym_cross @ '' Unable to get current working directory: '' @ e) w0)
      | (Inr workingDir, w0) \<Rightarrow>
          report (fail_fast (nine_steps C E (filepath_Join workingDir ''backup_dir''))
                  (log_Print (''Using '' @ filepath_Join workingDir ''backup_dir''
                                @ '' as the backup directory...'') w0)))"
  unfolding main_def nine_steps_def Let_def
    report_nil report_stage_of report_connectivity_stage diagnostics_nth append_assoc
  by (rule refl)

lemma stage_of_line: "fst (stage_of msg step w) = Some line \<Longrightarrow> prefix msg line"
  by (auto simp: stage_of_def split: prod.splits option.splits)

lemma connectivity_stage_line: "fst (connectivity_stage msg test w) = Some line \<Longrightarrow> prefix msg line"
  by (auto simp: connectivity_stage_def split: prod.splits bool.splits)

lemma length_nine_steps: "length (nine_steps C E d) = 9"
  by (simp add: nine_steps_def)

lemma less_nine: "k < 9 \<Longrightarrow> k = 0 \<or> k = 1 \<or> k = 2 \<or> k = 3 \<or> k = 4 \<or> k = 5 \<or> k = 6 \<or> k = 7 \<or> k = (8::nat)"
  by arith

lemma nine_steps_line:
  assumes "k < 9" and "fst ((nine_steps C E d ! k) w) = Some line"
  shows "prefix (diagnostics ! k) line"
proof -
  from less_nine [OF assms(1)] show ?thesis
    using assms(2)
    by (elim disjE) (simp_all add: nine_steps_def stage_of_line connectivity_stage_line)
qed

text \<open>
  Claim C1. A run of \<^verbatim>\<open>main\<close> executes the nine steps (connectivity check, destination
  cleanup, backup directory reset, schema dump, schema restore, disable constraints, data
  dump, data restore, re-enable constraints) in that order. When every step succeeds the
  exit status is 0. When step \<open>k\<close> is the first to fail, exactly the steps up to \<open>k\<close>
  have run, the process ends with status 1, and its last line is the diagnostic of step
  \<open>k\<close>; for \<open>k = 4\<close>, the schema restore, the data dump and the data restore are
  not among the steps that ran. When the working directory cannot be read, no step runs.
\<close>

theorem main_nine_steps_fail_fast:
  "(\<forall>e w0. os_Getwd E w = (Inl e, w0) \<longrightarrow>
      main C E w =
        (1, log_Fatal (sym_cross @ '' Unable to get current working directory: '' @ e) w0)) \<and>
   (\<forall>wd w0. os_Getwd E w = (Inr wd, w0) \<longrightarrow>
      (let dumpDir = filepath_Join wd ''backup_dir'';
           ss = nine_steps C E dumpDir;
           w1 = log_Print (''Using '' @ dumpDir @ '' as the backup directory...'') w0
       in length ss = 9 \<and>
          ((\<forall>i<9. fst ((ss ! i) (thread (take i ss) w1)) = None) \<longrightarrow>
             main C E w =
               (0, log_Print (sym_check @ '' Database migration completed successfully!'')
                     (thread ss w1))) \<and>
          (\<forall>k<9. \<forall>line.
             (\<forall>i<k. fst ((ss ! i) (thread (take i ss) w1)) = None) \<and>
             fst ((ss ! k) (thread (take k ss) w1)) = Some line \<longrightarrow>
             main C E w = (1, log_Fatal line (thread (take (Suc k) ss) w1)) \<and>
             prefix (diagnostics ! k) line)))"
proof (intro conjI allI impI)
  fix e w0
  assume "os_Getwd E w = (Inl e, w0)"
  then show "main C E w =
        (1, log_Fatal (sym_cross @ '' Unable to get current working directory: '' @ e) w0)"
    by (simp add: main_as_fail_fast)
next
  fix wd w0
  assume g: "os_Getwd E w = (Inr wd, w0)"
  define dumpDir where "dumpDir = filepath_Join wd ''backup_dir''"
  define ss where "ss = nine_steps C E dumpDir"
  define w1 where "w1 = log_Print (''Using '' @ dumpDir @ '' as the backup directory...'') w0"
  have m: "main C E w = report (fail_fast ss w1)"
    using g by (simp add: main_as_fail_fast ss_def w1_def dumpDir_def)
  have len: "length ss = 9" by (simp add: ss_def length_nine_steps)
  have ok: "(\<forall>i<9. fst ((ss ! i) (thread (take i ss) w1)) = None) \<longrightarrow>
             main C E w =
               (0, log_Print (sym_check @ '' Database migration completed successfully!'')
                     (thread ss w1))"
  proof
    assume "\<forall>i<9. fst ((ss ! i) (thread (take i ss) w1)) = None"
    then have "fail_fast ss w1 = (0, thread ss w1)"
      using len by (intro fail_fast_all_ok) simp
    then show "main C E w =
               (0, log_Print (sym_check @ '' Database migration completed successfully!'')
                     (thread ss w1))"
      by (simp add: m report_def)
  qed
  have bad: "\<forall>k<9. \<forall>line.
             (\<forall>i<k. fst ((ss ! i) (thread (take i ss) w1)) = None) \<and>
             fst ((ss ! k) (thread (take k ss) w1)) = Some line \<longrightarrow>
             main C E w = (1, log_Fatal line (thread (take (Suc k) ss) w1)) \<and>
             prefix (diagnostics ! k) line"
  proof (intro allI impI, elim conjE)
    fix k line
    assume k: "k < 9"
      and pre: "\<forall>i<k. fst ((ss ! i) (thread (take i ss) w1)) = None"
      and at: "fst ((ss ! k) (thread (take k ss) w1)) = Some line"
    have "fail_fast ss w1 = (1, log_Fatal line (thread (take (Suc k) ss) w1))"
      using k len pre at by (intro fail_fast_first_failure) simp_all
    then have "main C E w = (1, log_Fatal line (thread (take (Suc k) ss) w1))"
      by (simp add: m report_def)
    moreover have "prefix (diagnostics ! k) line"
      using k at unfolding ss_def by (rule nine_steps_line)
    ultimately show "main C E w = (1, log_Fatal line (thread (take (Suc k) ss) w1)) \<and>
             prefix (diagnostics ! k) line" by simp
  qed
  show "let dumpDir = filepath_Join wd ''backup_dir'';
           ss = nine_steps C E dumpDir;
           w1 = log_Print (''Using '' @ dumpDir @ '' as the backup directory...'') w0
       in length ss = 9 \<and>
          ((\<forall>i<9. fst ((ss ! i) (thread (take i ss) w1)) = None) \<longrightarrow>
             main C E w =
               (0, log_Print (sym_check @ '' Database migration completed successfully!'')
                     (thread ss w1))) \<and>
          (\<forall>k<9. \<forall>line.
             (\<forall>i<k. fst ((ss ! i) (thread (take i ss) w1)) = None) \<and>
             fst ((ss ! k) (thread (take k ss) w1)) = Some line \<longrightarrow>
             main C E w = (1, log_Fatal line (thread (take (Suc k) ss) w1)) \<and>
             prefix (diagnostics ! k) line)"
    unfolding Let_def
    using len ok bad unfolding ss_def w1_def dumpDir_def by blast
qed

theorem main_nine_steps_fail_fast_witness:
  "fst (main main_go_config schema_restore_fails_env start_world) = 1 \<and>
   commands (trace (snd (main main_go_config schema_restore_fails_env start_world)))
     = [''psql'', ''pg_dump'', ''pg_restore''] \<and>
   fst (main main_go_config quiet_env start_world) = 0 \<and>
   commands (trace (snd (main main_go_config quiet_env start_world)))
     = [''psql'', ''pg_dump'', ''pg_restore'', ''psql'', ''pg_dump'', ''pg_restore'', ''psql'']"
proof -
  let ?E = schema_restore_fails_env and ?Q = quiet_env and ?C = main_go_config
  let ?wa = "emit CallGetwd start_world"
  let ?d = "filepath_Join ''/srv/migrate'' ''backup_dir''"
  let ?ss = "nine_steps ?C ?E ?d"
  let ?qs = "nine_steps ?C ?Q ?d"
  let ?wb = "log_Print (''Using '' @ ?d @ '' as the backup directory...'') ?wa"
  let ?line = "diagnostics ! 4 @ ''exit status 1''"
  have g: "os_Getwd ?E start_world = (Inr ''/srv/migrate'', ?wa)"
    by (simp add: os_Getwd_def schema_restore_fails_env_def quiet_env_def)
  have pre: "\<forall>i<4. fst ((?ss ! i) (thread (take i ?ss) ?wb)) = None"
  proof (intro allI impI)
    fix i :: nat assume "i < 4"
    then have "i = 0 \<or> i = 1 \<or> i = 2 \<or> i = 3" by arith
    moreover have "fst ((?ss ! 0) (thread (take 0 ?ss) ?wb)) = None" by code_simp
    moreover have "fst ((?ss ! 1) (thread (take 1 ?ss) ?wb)) = None" by code_simp
    moreover have "fst ((?ss ! 2) (thread (take 2 ?ss) ?wb)) = None" by code_simp
    moreover have "fst ((?ss ! 3) (thread (take 3 ?ss) ?wb)) = None" by code_simp
    ultimately show "fst ((?ss ! i) (thread (take i ?ss) ?wb)) = None" by blast
  qed
  have at: "fst ((?ss ! 4) (thread (take 4 ?ss) ?wb)) = Some ?line"
    by code_simp
  have m: "main ?C ?E start_world = (1, log_Fatal ?line (thread (take (Suc 4) ?ss) ?wb))"
  proof -
    note spec = main_nine_steps_fail_fast [of ?E start_world ?C, THEN conjunct2, rule_format, OF g]
    note fails = spec [unfolded Let_def, THEN conjunct2, THEN conjunct2, rule_format, of 4 ?line]
    have "(4::nat) < 9" by simp
    from fails [OF this conjI [OF pre at]] show ?thesis by (rule conjunct1)
  qed
  have c: "commands (trace (log_Fatal ?line (thread (take (Suc 4) ?ss) ?wb)))
          = [''psql'', ''pg_dump'', ''pg_restore'']"
    by code_simp
  have gq: "os_Getwd ?Q start_world = (Inr ''/srv/migrate'', ?wa)"
    by (simp add: os_Getwd_def quiet_env_def)
  have all: "\<forall>i<9. fst ((?qs ! i) (thread (take i ?qs) ?wb)) = None"
  proof (intro allI impI)
    fix i :: nat assume "i < 9"
    then have "i = 0 \<or> i = 1 \<or> i = 2 \<or> i = 3 \<or> i = 4 \<or> i = 5 \<or> i = 6 \<or> i = 7 \<or> i = 8"
      by arith
    moreover have "fst ((?qs ! 0) (thread (take 0 ?qs) ?wb)) = None" by code_simp
    moreover have "fst ((?qs ! 1) (thread (take 1 ?qs) ?wb)) = None" by code_simp
    moreover have "fst ((?qs ! 2) (thread (take 2 ?qs) ?wb)) = None" by code_simp
    moreover have "fst ((?qs ! 3) (thread (take 3 ?qs) ?wb)) = None" by code_simp
    moreover have "fst ((?qs ! 4) (thread (take 4 ?qs) ?wb)) = None" by code_simp
    moreover have "fst ((?qs ! 5) (thread (take 5 ?qs) ?wb)) = None" by code_simp
    moreover have "fst ((?qs ! 6) (thread (take 6 ?qs) ?wb)) = None" by code_simp
    moreover have "fst ((?qs ! 7) (thread (take 7 ?qs) ?wb)) = None" by code_simp
    moreover have "fst ((?qs ! 8) (thread (take 8 ?qs) ?wb)) = None" by code_simp
    ultimately show "fst ((?qs ! i) (thread (take i ?qs) ?wb)) = None" by blast
  qed
  have mq: "main ?C ?Q start_world =
      (0, log_Print (sym_check @ '' Database migration completed successfully!'')
            (thread ?qs ?wb))"
  proof -
    note spec = main_nine_steps_fail_fast [of ?Q start_world ?C, THEN conjunct2, rule_format, OF gq]
    from spec [unfolded Let_def, THEN conjunct2, THEN conjunct1, THEN mp, OF all]
    show ?thesis .
  qed
  have cq: "commands (trace (log_Print (sym_check @ '' Database migration completed successfully!'')
            (thread ?qs ?wb)))
      = [''psql'', ''pg_dump'', ''pg_restore'', ''psql'', ''pg_dump'', ''pg_restore'', ''psql'']"
    by code_simp
  from m c mq cq show ?thesis by simp
qed

subsection \<open>The connectivity check\<close>

lemma new_events_emit [simp]: "trace w' = trace w @ evs \<Longrightarrow> new_events w w' = evs"
  by (simp add: new_events_def)

lemma testDBConnection_files: "files (snd (testDBConnection E c t w)) = files w"
  by (simp add: testDBConnection_def sql_Open_def db_Ping_def db_Close_def log_Print_def
      emit_def Let_def split: option.splits)

lemma testDBConnection_trace:
  "\<exists>evs. trace (snd (testDBConnection E c t w)) = trace w @ evs \<and> list_all (probe_of c) evs"
  by (simp add: testDBConnection_def sql_Open_def db_Ping_def db_Close_def log_Print_def
      emit_def Let_def split: option.splits)

lemma testDBConnection_iff:
  "fst (testDBConnection E c t w) \<longleftrightarrow>
     open_res E ''postgres'' c
       (log_Print (sym_cycle @ '' Testing '' @ t @ '' database connection...'') w) = None \<and>
     ping_res E c
       (emit (SqlOpen ''postgres'' c)
          (log_Print (sym_cycle @ '' Testing '' @ t @ '' database connection...'') w)) = None"
  by (simp add: testDBConnection_def sql_Open_def db_Ping_def Let_def split: option.splits)

lemma main_destination_fails:
  "os_Getwd E w = (Inr wd, w0) \<Longrightarrow>
   testDBConnection E (sourceDB C) ''Source''
     (log_Print (''Using '' @ filepath_Join wd ''backup_dir'' @ '' as the backup directory...'') w0)
     = (True, w2) \<Longrightarrow>
   testDBConnection E (destinationDB C) ''Destination'' w2 = (False, w3) \<Longrightarrow>
   main C E w =
     (1, log_Fatal (sym_cross @ '' Database connection test failed. Migration aborted.'') w3)"
  by (simp add: main_def connectionTestFailed_def Let_def)

lemma report_part_001_nil:
  "report_part_001 (fail_fast [] w) =
     (0, log_Print (sym_check @ '' Database data migration completed successfully!'') w)"
  by (simp add: report_part_001_def)

lemma report_part_001_stage_of:
  "report_part_001 (fail_fast (stage_of msg step # ss) w) =
     (case step w of
        (Some e, w') \<Rightarrow> (1, log_Fatal (msg @ e) w')
      | (None, w') \<Rightarrow> report_part_001 (fail_fast ss w'))"
  by (simp add: stage_of_def report_part_001_def split: prod.splits option.splits)

lemma report_part_001_connectivity_stage:
  "report_part_001 (fail_fast (connectivity_stage msg test # ss) w) =
     (case test w of
        (True, w') \<Rightarrow> (1, log_Fatal msg w')
      | (False, w') \<Rightarrow> report_part_001 (fail_fast ss w'))"
  by (simp add: connectivity_stage_def report_part_001_def split: prod.splits bool.splits)

lemma main_part_000_as_fail_fast:
  "main_part_000 C E w =
     (case os_Getwd E w of
        (Inl e, w0) \<Rightarrow>
          (1, log_Fatal (sym_cross @ '' Unable to get current working directory: '' @ e) w0)
      | (Inr workingDir, w0) \<Rightarrow>
          report (fail_fast (nine_steps_part_000 C E (filepath_Join workingDir ''backup_dir''))
                  (log_Print (''Using '' @ filepath_Join workingDir ''backup_dir''
                                @ '' as the backup directory...'') w0)))"
  unfolding main_part_000_def nine_steps_part_000_def Let_def
    report_nil report_stage_of report_connectivity_stage diagnostics_nth append_assoc
  by (rule refl)

lemma main_part_001_as_fail_fast:
  "main_part_001 C E w =
     (case os_Getwd E w of
        (Inl e, w0) \<Rightarrow>
          (1, log_Fatal (sym_cross @ '' Unable to get current working directory: '' @ e) w0)
      | (Inr workingDir, w0) \<Rightarrow>
          report_part_001 (fail_fast (four_steps_part_001 C E (filepath_Join workingDir ''backup_dir''))
                  (log_Print (''Using '' @ filepath_Join workingDir ''backup_dir''
                                @ '' as the backup directory...'') w0)))"
  unfolding main_part_001_def four_steps_part_001_def Let_def
    report_part_001_nil report_part_001_stage_of report_part_001_connectivity_stage
    diagnostics_nth append_assoc
  by (rule refl)

text \<open>Every call only adds to the trace.\<close>

lemma grows_emit: "prefix (trace w) (trace (emit ev w))"
  by (simp add: emit_def)

lemma grows_log_Print: "prefix (trace w) (trace (log_Print msg w))"
  by (simp add: log_Print_def emit_def)

lemma grows_log_Fatal: "prefix (trace w) (trace (log_Fatal msg w))"
  by (simp add: log_Fatal_def emit_def)

lemma grows_exec_Run: "prefix (trace w) (trace (snd (exec_Run E name args w)))"
  by (simp add: exec_Run_def emit_def)

lemma grows_os_Stat: "prefix (trace w) (trace (snd (os_Stat E name w)))"
  by (simp add: os_Stat_def emit_def)

lemma grows_os_RemoveAll: "prefix (trace w) (trace (snd (os_RemoveAll E name w)))"
  by (simp add: os_RemoveAll_def emit_def Let_def split: option.splits prod.splits)

lemma grows_os_MkdirAll: "prefix (trace w) (trace (snd (os_MkdirAll E name perm w)))"
  by (simp add: os_MkdirAll_def emit_def Let_def split: option.splits prod.splits node.splits)

lemma grows_testDBConnection: "prefix (trace w) (trace (snd (testDBConnection E c t w)))"
  using testDBConnection_trace [of E c t w] by auto

lemma grows_connectionTestFailed: "prefix (trace w) (trace (snd (connectionTestFailed C E w)))"
proof (cases "testDBConnection E (sourceDB C) ''Source'' w")
  case (Pair ok w1)
  have a: "prefix (trace w) (trace w1)"
    using grows_testDBConnection [of w E "sourceDB C" "''Source''"] Pair by simp
  show ?thesis
  proof (cases ok)
    case False
    with Pair a show ?thesis by (simp add: connectionTestFailed_def)
  next
    case True
    have "prefix (trace w1) (trace (snd (testDBConnection E (destinationDB C) ''Destination'' w1)))"
      by (rule grows_testDBConnection)
    with a have "prefix (trace w) (trace (snd (testDBConnection E (destinationDB C) ''Destination'' w1)))"
      by (rule prefix_order.trans)
    with Pair True show ?thesis by (auto simp add: connectionTestFailed_def split: prod.splits)
  qed
qed

lemma grows_step:
  assumes "\<And>w. prefix (trace w) (trace (snd (f w)))"
  shows "prefix (trace w) (trace (snd (f (log_Print msg w))))"
  using grows_log_Print [of w msg] assms [of "log_Print msg w"] by (rule prefix_order.trans)

lemma grows_cleanDestinationDB: "prefix (trace w) (trace (snd (cleanDestinationDB C E w)))"
  unfolding cleanDestinationDB_def Let_def by (rule grows_step) (rule grows_exec_Run)

lemma grows_cleanDestinationDB_part_000:
  "prefix (trace w) (trace (snd (cleanDestinationDB_part_000 C E w)))"
  unfolding cleanDestinationDB_part_000_def Let_def by (rule grows_step) (rule grows_exec_Run)

lemma grows_dumpSchema: "prefix (trace w) (trace (snd (dumpSchema C E d w)))"
  unfolding dumpSchema_def Let_def by (rule grows_step) (rule grows_exec_Run)

lemma grows_restoreSchema: "prefix (trace w) (trace (snd (restoreSchema C E d w)))"
  unfolding restoreSchema_def Let_def by (rule grows_step) (rule grows_exec_Run)

lemma grows_disableConstraints: "prefix (trace w) (trace (snd (disableConstraints C E w)))"
  unfolding disableConstraints_def Let_def by (rule grows_step) (rule grows_exec_Run)

lemma grows_enableConstraints: "prefix (trace w) (trace (snd (enableConstraints C E w)))"
  unfolding enableConstraints_def Let_def by (rule grows_step) (rule grows_exec_Run)

lemma grows_dumpData: "prefix (trace w) (trace (snd (dumpData C E d w)))"
  unfolding dumpData_def Let_def by (rule grows_step) (rule grows_exec_Run)

lemma grows_restoreData: "prefix (trace w) (trace (snd (restoreData C E d w)))"
  unfolding restoreData_def Let_def by (rule grows_step) (rule grows_exec_Run)

lemma grows_restoreDataWithTransaction:
  "prefix (trace w) (trace (snd (restoreDataWithTransaction C E d w)))"
  by (simp add: restoreDataWithTransaction_def exec_Run_def log_Print_def emit_def Let_def
      split: option.splits)

lemma grows_resetBackupDir: "prefix (trace w) (trace (snd (resetBackupDir E d w)))"
proof -
  let ?wa = "log_Print (sym_bin @ '' Removing existing backup directory...'') w"
  have a: "prefix (trace w) (trace ?wa)" by (rule grows_log_Print)
  have b: "prefix (trace ?wa) (trace (snd (os_RemoveAll E d ?wa)))" by (rule grows_os_RemoveAll)
  show ?thesis
  proof (cases "os_RemoveAll E d ?wa")
    case (Pair r wb)
    with a b have c: "prefix (trace w) (trace wb)" by (auto intro: prefix_order.trans)
    show ?thesis
    proof (cases r)
      case (Some e)
      with Pair c show ?thesis by (simp add: resetBackupDir_def Let_def)
    next
      case None
      let ?wc = "log_Print (sym_folder @ '' Creating a new backup directory...'') wb"
      have "prefix (trace wb) (trace ?wc)" by (rule grows_log_Print)
      moreover have "prefix (trace ?wc) (trace (snd (os_MkdirAll E d 493 ?wc)))"
        by (rule grows_os_MkdirAll)
      ultimately have "prefix (trace w) (trace (snd (os_MkdirAll E d 493 ?wc)))"
        using c by (auto intro: prefix_order.trans)
      with Pair None show ?thesis by (simp add: resetBackupDir_def Let_def)
    qed
  qed
qed

lemma grows_dumpData_part_000: "prefix (trace w) (trace (snd (dumpData_part_000 C E d w)))"
  by (simp add: dumpData_part_000_def os_Stat_def os_RemoveAll_def exec_Run_def log_Print_def
      emit_def Let_def split: option.splits prod.splits)

lemma grows_restoreDataWithTransaction_part_000:
  "prefix (trace w) (trace (snd (restoreDataWithTransaction_part_000 C E d w)))"
  by (simp add: restoreDataWithTransaction_part_000_def exec_Run_def log_Print_def emit_def
      Let_def split: option.splits prod.splits)

lemma grows_stage_of:
  assumes "\<And>w. prefix (trace w) (trace (snd (f w)))"
  shows "prefix (trace w) (trace (snd (stage_of msg f w)))"
  using assms [of w] by (auto simp add: stage_of_def split: prod.splits option.splits)

lemma grows_connectivity_stage:
  assumes "\<And>w. prefix (trace w) (trace (snd (f w)))"
  shows "prefix (trace w) (trace (snd (connectivity_stage msg f w)))"
  using assms [of w] by (auto simp add: connectivity_stage_def split: prod.splits bool.splits)

lemma grows_fail_fast:
  "(\<And>s w. s \<in> set ss \<Longrightarrow> prefix (trace w) (trace (snd (s w)))) \<Longrightarrow>
   prefix (trace w) (trace (snd (fail_fast ss w)))"
proof (induction ss arbitrary: w)
  case Nil
  then show ?case by simp
next
  case (Cons s ss)
  have a: "prefix (trace w) (trace (snd (s w)))" using Cons.prems by simp
  have b: "prefix (trace (snd (s w))) (trace (snd (fail_fast ss (snd (s w)))))"
    using Cons.prems by (intro Cons.IH) simp
  show ?case
  proof (cases "s w")
    case (Pair r w')
    show ?thesis
    proof (cases r)
      case None
      with Pair a b show ?thesis by (auto intro: prefix_order.trans)
    next
      case (Some line)
      have "prefix (trace w') (trace (log_Fatal line w'))" by (rule grows_log_Fatal)
      with Pair Some a show ?thesis by (auto intro: prefix_order.trans)
    qed
  qed
qed

lemma grows_report: "prefix (trace w) (trace (snd r)) \<Longrightarrow> prefix (trace w) (trace (snd (report r)))"
  using grows_log_Print [of "snd r"]
  by (cases r) (auto simp: report_def intro: prefix_order.trans)

lemma grows_report_part_001:
  "prefix (trace w) (trace (snd r)) \<Longrightarrow> prefix (trace w) (trace (snd (report_part_001 r)))"
  using grows_log_Print [of "snd r"]
  by (cases r) (auto simp: report_part_001_def intro: prefix_order.trans)

lemma source_check_first:
  assumes rest: "\<And>s w. s \<in> set rest \<Longrightarrow> prefix (trace w) (trace (snd (s w)))"
  shows "prefix (trace (snd (testDBConnection E (sourceDB C) ''Source'' w)))
           (trace (snd (fail_fast (connectivity_stage msg (connectionTestFailed C E) # rest) w)))"
proof (cases "testDBConnection E (sourceDB C) ''Source'' w")
  case (Pair ok w2)
  show ?thesis
  proof (cases ok)
    case False
    with Pair show ?thesis
      using grows_log_Fatal [of w2 msg]
      by (simp add: connectivity_stage_def connectionTestFailed_def)
  next
    case True
    obtain ok' w3 where d: "testDBConnection E (destinationDB C) ''Destination'' w2 = (ok', w3)"
      by (cases "testDBConnection E (destinationDB C) ''Destination'' w2")
    have a: "prefix (trace w2) (trace w3)"
      using grows_testDBConnection [of w2 E "destinationDB C" "''Destination''"] d by simp
    have b: "prefix (trace w3) (trace (log_Fatal msg w3))" by (rule grows_log_Fatal)
    have c: "prefix (trace w3) (trace (snd (fail_fast rest w3)))"
      using rest by (rule grows_fail_fast)
    from Pair True d a b c show ?thesis
      by (cases ok') (auto simp: connectivity_stage_def connectionTestFailed_def
          intro: prefix_order.trans)
  qed
qed

lemmas grows_steps =
  grows_cleanDestinationDB grows_cleanDestinationDB_part_000 grows_resetBackupDir
  grows_dumpSchema grows_restoreSchema grows_disableConstraints grows_enableConstraints
  grows_dumpData grows_dumpData_part_000 grows_restoreData grows_restoreDataWithTransaction
  grows_restoreDataWithTransaction_part_000

lemma source_check_first_main:
  assumes "os_Getwd E w = (Inr wd, w0)"
  shows "prefix (trace (snd (testDBConnection E (sourceDB C) ''Source''
            (log_Print (''Using '' @ filepath_Join wd ''backup_dir''
                          @ '' as the backup directory...'') w0))))
          (trace (snd (main C E w)))"
  unfolding main_as_fail_fast assms prod.case sum.case nine_steps_def
  by (intro grows_report source_check_first) (auto intro!: grows_stage_of grows_steps)

lemma source_check_first_main_part_000:
  assumes "os_Getwd E w = (Inr wd, w0)"
  shows "prefix (trace (snd (testDBConnection E (sourceDB C) ''Source''
            (log_Print (''Using '' @ filepath_Join wd ''backup_dir''
                          @ '' as the backup directory...'') w0))))
          (trace (snd (main_part_000 C E w)))"
  unfolding main_part_000_as_fail_fast assms prod.case sum.case nine_steps_part_000_def
  by (intro grows_report source_check_first) (auto intro!: grows_stage_of grows_steps)

lemma source_check_first_main_part_001:
  assumes "os_Getwd E w = (Inr wd, w0)"
  shows "prefix (trace (snd (testDBConnection E (sourceDB C) ''Source''
            (log_Print (''Using '' @ filepath_Join wd ''backup_dir''
                          @ '' as the backup directory...'') w0))))
          (trace (snd (main_part_001 C E w)))"
  unfolding main_part_001_as_fail_fast assms prod.case sum.case four_steps_part_001_def
  by (intro grows_report_part_001 source_check_first) (auto intro!: grows_stage_of grows_steps)

text \<open>
  Claim C9. In every variant of \<^verbatim>\<open>main\<close> the source endpoint is checked first: the
  trace of the run starts with the trace of the source check, which beyond the call of
  \<^verbatim>\<open>Getwd\<close> holds only log lines and probes of the source. When the source check fails,
  the run ends right there with the fatal line: the destination is never opened or pinged.
\<close>

theorem source_checked_before_destination:
  "os_Getwd E w = (Inr wd, w0) \<longrightarrow>
     (let src = testDBConnection E (sourceDB C) ''Source''
                  (log_Print (''Using '' @ filepath_Join wd ''backup_dir''
                                @ '' as the backup directory...'') w0);
          fatal = log_Fatal (sym_cross @ '' Database connection test failed. Migration aborted.'')
      in prefix (trace (snd src)) (trace (snd (main C E w))) \<and>
         prefix (trace (snd src)) (trace (snd (main_part_000 C E w))) \<and>
         prefix (trace (snd src)) (trace (snd (main_part_001 C E w))) \<and>
         list_all (\<lambda>ev. ev = CallGetwd \<or> probe_of (sourceDB C) ev) (new_events w (snd src)) \<and>
         (\<not> fst src \<longrightarrow>
            main C E w = (1, fatal (snd src)) \<and>
            main_part_000 C E w = (1, fatal (snd src)) \<and>
            main_part_001 C E w = (1, fatal (snd src))))"
proof
  assume g: "os_Getwd E w = (Inr wd, w0)"
  let ?wa = "log_Print (''Using '' @ filepath_Join wd ''backup_dir''
                                @ '' as the backup directory...'') w0"
  let ?src = "testDBConnection E (sourceDB C) ''Source'' ?wa"
  let ?fatal = "log_Fatal (sym_cross @ '' Database connection test failed. Migration aborted.'')"
  from g have w0: "w0 = emit CallGetwd w" by (simp add: os_Getwd_def)
  obtain evs where evs: "trace (snd ?src) = trace ?wa @ evs" "list_all (probe_of (sourceDB C)) evs"
    using testDBConnection_trace [of E "sourceDB C" "''Source''" ?wa] by blast
  have t: "trace (snd ?src) =
      trace w @ CallGetwd # LogLine (''Using '' @ filepath_Join wd ''backup_dir''
                                @ '' as the backup directory...'') # evs"
    using evs(1) by (simp add: w0 log_Print_def emit_def)
  have only: "list_all (\<lambda>ev. ev = CallGetwd \<or> probe_of (sourceDB C) ev) (new_events w (snd ?src))"
    unfolding new_events_emit [OF t] using evs(2) by (simp add: list_all_iff)
  have short: "\<not> fst ?src \<longrightarrow>
            main C E w = (1, ?fatal (snd ?src)) \<and>
            main_part_000 C E w = (1, ?fatal (snd ?src)) \<and>
            main_part_001 C E w = (1, ?fatal (snd ?src))"
  proof
    assume "\<not> fst ?src"
    then have s: "?src = (False, snd ?src)" by (cases ?src) simp
    have c: "connectionTestFailed C E ?wa = (True, snd ?src)"
      unfolding connectionTestFailed_def by (subst s) simp
    show "main C E w = (1, ?fatal (snd ?src)) \<and>
            main_part_000 C E w = (1, ?fatal (snd ?src)) \<and>
            main_part_001 C E w = (1, ?fatal (snd ?src))"
      unfolding main_def main_part_000_def main_part_001_def g prod.case sum.case Let_def c
      by simp
  qed
  show "let src = ?src; fatal = ?fatal
      in prefix (trace (snd src)) (trace (snd (main C E w))) \<and>
         prefix (trace (snd src)) (trace (snd (main_part_000 C E w))) \<and>
         prefix (trace (snd src)) (trace (snd (main_part_001 C E w))) \<and>
         list_all (\<lambda>ev. ev = CallGetwd \<or> probe_of (sourceDB C) ev) (new_events w (snd src)) \<and>
         (\<not> fst src \<longrightarrow>
            main C E w = (1, fatal (snd src)) \<and>
            main_part_000 C E w = (1, fatal (snd src)) \<and>
            main_part_001 C E w = (1, fatal (snd src)))"
    unfolding Let_def
    using source_check_first_main [OF g, of C] source_check_first_main_part_000 [OF g, of C]
      source_check_first_main_part_001 [OF g, of C] only short
    by blast
qed

text \<open>
  Claim C4. The connectivity check answers true exactly when the connection can be opened
  and the ping is answered. When the check of the destination fails (the source being
  reachable), the run ends with status 1 after the fatal line; up to there no external
  command has run (so no statement has reached the destination) and no file was touched.
\<close>

theorem connectivity_check_and_destination_untouched:
  "(fst (testDBConnection E c t w) \<longleftrightarrow>
      open_res E ''postgres'' c
        (log_Print (sym_cycle @ '' Testing '' @ t @ '' database connection...'') w) = None \<and>
      ping_res E c
        (emit (SqlOpen ''postgres'' c)
           (log_Print (sym_cycle @ '' Testing '' @ t @ '' database connection...'') w)) = None) \<and>
   (\<forall>wd w0 w2 w3.
      os_Getwd E w = (Inr wd, w0) \<and>
      testDBConnection E (sourceDB C) ''Source''
        (log_Print (''Using '' @ filepath_Join wd ''backup_dir''
                      @ '' as the backup directory...'') w0) = (True, w2) \<and>
      testDBConnection E (destinationDB C) ''Destination'' w2 = (False, w3) \<longrightarrow>
      main C E w =
        (1, log_Fatal (sym_cross @ '' Database connection test failed. Migration aborted.'') w3) \<and>
      files (snd (main C E w)) = files w \<and>
      list_all (\<lambda>ev. \<not> is_command ev \<and> \<not> is_file_change ev) (new_events w (snd (main C E w))))"
proof (intro conjI allI impI)
  show "fst (testDBConnection E c t w) \<longleftrightarrow>
      open_res E ''postgres'' c
        (log_Print (sym_cycle @ '' Testing '' @ t @ '' database connection...'') w) = None \<and>
      ping_res E c
        (emit (SqlOpen ''postgres'' c)
           (log_Print (sym_cycle @ '' Testing '' @ t @ '' database connection...'') w)) = None"
    by (rule testDBConnection_iff)
next
  fix wd w0 w2 w3
  let ?wa = "log_Print (''Using '' @ filepath_Join wd ''backup_dir''
                      @ '' as the backup directory...'') w0"
  let ?msg = "sym_cross @ '' Database connection test failed. Migration aborted.''"
  assume h: "os_Getwd E w = (Inr wd, w0) \<and>
      testDBConnection E (sourceDB C) ''Source'' ?wa = (True, w2) \<and>
      testDBConnection E (destinationDB C) ''Destination'' w2 = (False, w3)"
  then have g: "os_Getwd E w = (Inr wd, w0)"
    and s: "testDBConnection E (sourceDB C) ''Source'' ?wa = (True, w2)"
    and d: "testDBConnection E (destinationDB C) ''Destination'' w2 = (False, w3)"
    by simp_all
  have m: "main C E w = (1, log_Fatal ?msg w3)"
    using g s d by (rule main_destination_fails)
  from g have w0: "w0 = emit CallGetwd w" by (simp add: os_Getwd_def)
  obtain evs where evs: "trace w2 = trace ?wa @ evs" "list_all (probe_of (sourceDB C)) evs"
    using testDBConnection_trace [of E "sourceDB C" "''Source''" ?wa] s by auto
  obtain evd where evd: "trace w3 = trace w2 @ evd" "list_all (probe_of (destinationDB C)) evd"
    using testDBConnection_trace [of E "destinationDB C" "''Destination''" w2] d by auto
  have f2: "files w2 = files ?wa"
    using testDBConnection_files [of E "sourceDB C" "''Source''" ?wa] s by simp
  have f3: "files w3 = files w2"
    using testDBConnection_files [of E "destinationDB C" "''Destination''" w2] d by simp
  have t: "trace (log_Fatal ?msg w3) =
      trace w @ (CallGetwd # LogLine (''Using '' @ filepath_Join wd ''backup_dir''
                      @ '' as the backup directory...'') # evs @ evd @ [LogLine ?msg, OsExit 1])"
    using evs(1) evd(1) by (simp add: w0 log_Print_def log_Fatal_def emit_def)
  have p: "\<And>c ev. probe_of c ev \<Longrightarrow> \<not> is_command ev \<and> \<not> is_file_change ev"
  proof -
    fix c ev show "probe_of c ev \<Longrightarrow> \<not> is_command ev \<and> \<not> is_file_change ev"
      by (cases ev) simp_all
  qed
  show "main C E w = (1, log_Fatal ?msg w3)" by (rule m)
  show "files (snd (main C E w)) = files w"
    by (simp add: m f3 f2 w0 log_Fatal_def log_Print_def emit_def)
  show "list_all (\<lambda>ev. \<not> is_command ev \<and> \<not> is_file_change ev) (new_events w (snd (main C E w)))"
  proof -
    have "new_events w (log_Fatal ?msg w3) =
        CallGetwd # LogLine (''Using '' @ filepath_Join wd ''backup_dir''
                      @ '' as the backup directory...'') # evs @ evd @ [LogLine ?msg, OsExit 1]"
      by (rule new_events_emit [OF t])
    moreover have "list_all (\<lambda>ev. \<not> is_command ev \<and> \<not> is_file_change ev)
        (CallGetwd # LogLine (''Using '' @ filepath_Join wd ''backup_dir''
                      @ '' as the backup directory...'') # evs @ evd @ [LogLine ?msg, OsExit 1])"
      using evs(2) evd(2) p by (auto simp: list_all_iff)
    ultimately show ?thesis by (simp add: m)
  qed
qed

theorem source_checked_before_destination_witness:
  "main main_go_config source_down_env start_world =
     (1, log_Fatal (sym_cross @ '' Database connection test failed. Migration aborted.'')
           (snd (testDBConnection source_down_env ''your_source_db_connection_string'' ''Source''
              (log_Print (''Using /srv/migrate/backup_dir as the backup directory...'')
                 (emit CallGetwd start_world))))) \<and>
   pinged (trace (snd (testDBConnection source_down_env ''your_source_db_connection_string''
              ''Source''
              (log_Print (''Using /srv/migrate/backup_dir as the backup directory...'')
                 (emit CallGetwd start_world)))))
     = [''your_source_db_connection_string'']"
proof -
  let ?E = source_down_env and ?C = main_go_config
  let ?wa = "emit CallGetwd start_world"
  let ?src = "testDBConnection ?E (sourceDB ?C) ''Source''
                  (log_Print (''Using '' @ filepath_Join ''/srv/migrate'' ''backup_dir''
                                @ '' as the backup directory...'') ?wa)"
  have g: "os_Getwd ?E start_world = (Inr ''/srv/migrate'', ?wa)"
    by (simp add: os_Getwd_def source_down_env_def quiet_env_def)
  have f: "\<not> fst ?src" by code_simp
  have p: "pinged (trace (snd ?src)) = [''your_source_db_connection_string'']" by code_simp
  note inst = source_checked_before_destination [of ?E start_world "''/srv/migrate''" ?wa ?C,
      THEN mp, OF g, unfolded Let_def]
  from inst f have "main ?C ?E start_world =
      (1, log_Fatal (sym_cross @ '' Database connection test failed. Migration aborted.'')
            (snd ?src))" by blast
  with p show ?thesis by (simp add: main_go_config_def filepath_Join_def)
qed

theorem connectivity_check_and_destination_untouched_witness:
  "fst (main main_go_config destination_down_env start_world) = 1 \<and>
   files (snd (main main_go_config destination_down_env start_world)) = files start_world \<and>
   list_all (\<lambda>ev. \<not> is_command ev \<and> \<not> is_file_change ev)
     (new_events start_world (snd (main main_go_config destination_down_env start_world)))"
proof -
  let ?E = destination_down_env and ?C = main_go_config
  let ?wa = "emit CallGetwd start_world"
  let ?wb = "log_Print (''Using '' @ filepath_Join ''/srv/migrate'' ''backup_dir''
                                @ '' as the backup directory...'') ?wa"
  let ?src = "testDBConnection ?E (sourceDB ?C) ''Source'' ?wb"
  let ?dst = "testDBConnection ?E (destinationDB ?C) ''Destination'' (snd ?src)"
  have g: "os_Getwd ?E start_world = (Inr ''/srv/migrate'', ?wa)"
    by (simp add: os_Getwd_def destination_down_env_def quiet_env_def)
  have "fst ?src" by code_simp
  then have s: "?src = (True, snd ?src)" by (cases ?src) simp
  have "\<not> fst ?dst" by code_simp
  then have d: "?dst = (False, snd ?dst)" by (cases ?dst) simp
  note inst = connectivity_check_and_destination_untouched
      [of ?E "''c''" "''t''" start_world ?C, THEN conjunct2, rule_format,
       of "''/srv/migrate''" ?wa "snd ?src" "snd ?dst"]
  note all = inst [OF conjI [OF g conjI [OF s d]]]
  from all [THEN conjunct1] have "fst (main ?C ?E start_world) = 1" by simp
  with all [THEN conjunct2] show ?thesis by blast
qed

subsection \<open>The data restore in a transaction\<close>

lemma trace_exec_Run: "trace (snd (exec_Run E name args w)) = trace w @ [CmdRun name args]"
  by (simp add: exec_Run_def emit_def)

lemma restore_with_transaction_committed:
  assumes "fst (exec_Run E ''psql'' [destinationDB C, ''-c'', ''BEGIN;'']
             (log_Print (sym_tools @ '' Restoring data within a transaction...'') w)) = None"
    and "fst (exec_Run E ''pg_restore'' (pg_restore_data_args C d)
             (snd (exec_Run E ''psql'' [destinationDB C, ''-c'', ''BEGIN;'']
                (log_Print (sym_tools @ '' Restoring data within a transaction...'') w)))) = None"
  shows "restoreDataWithTransaction_part_000 C E d w =
           exec_Run E ''psql'' [destinationDB C, ''-c'', ''COMMIT;'']
             (snd (exec_Run E ''pg_restore'' (pg_restore_data_args C d)
                (snd (exec_Run E ''psql'' [destinationDB C, ''-c'', ''BEGIN;'']
                   (log_Print (sym_tools @ '' Restoring data within a transaction...'') w)))))"
    and "new_events w (snd (restoreDataWithTransaction_part_000 C E d w)) =
            [LogLine (sym_tools @ '' Restoring data within a transaction...''),
             CmdRun ''psql'' [destinationDB C, ''-c'', ''BEGIN;''],
             CmdRun ''pg_restore'' (pg_restore_data_args C d),
             CmdRun ''psql'' [destinationDB C, ''-c'', ''COMMIT;'']]"
proof -
  let ?wa = "log_Print (sym_tools @ '' Restoring data within a transaction...'') w"
  let ?begin = "exec_Run E ''psql'' [destinationDB C, ''-c'', ''BEGIN;''] ?wa"
  let ?restore = "exec_Run E ''pg_restore'' (pg_restore_data_args C d) (snd ?begin)"
  let ?commit = "exec_Run E ''psql'' [destinationDB C, ''-c'', ''COMMIT;''] (snd ?restore)"
  let ?result = "restoreDataWithTransaction_part_000 C E d w"
  have ta: "trace ?wa = trace w @ [LogLine (sym_tools @ '' Restoring data within a transaction...'')]"
    by (simp add: log_Print_def emit_def)
  from assms have b: "?begin = (None, snd ?begin)" and r: "?restore = (None, snd ?restore)"
    by (simp_all add: prod_eq_iff)
  show res: "?result = ?commit"
    unfolding restoreDataWithTransaction_part_000_def Let_def
    by (subst b, simp, subst r, simp)
  have "trace (snd ?commit) = trace w @
          [LogLine (sym_tools @ '' Restoring data within a transaction...''),
           CmdRun ''psql'' [destinationDB C, ''-c'', ''BEGIN;''],
           CmdRun ''pg_restore'' (pg_restore_data_args C d),
           CmdRun ''psql'' [destinationDB C, ''-c'', ''COMMIT;'']]"
    by (simp only: trace_exec_Run ta append_assoc append_Cons append_Nil)
  then have "new_events w (snd ?commit) =
          [LogLine (sym_tools @ '' Restoring data within a transaction...''),
           CmdRun ''psql'' [destinationDB C, ''-c'', ''BEGIN;''],
           CmdRun ''pg_restore'' (pg_restore_data_args C d),
           CmdRun ''psql'' [destinationDB C, ''-c'', ''COMMIT;'']]"
    by (rule new_events_emit)
  then show "new_events w (snd ?result) =
            [LogLine (sym_tools @ '' Restoring data within a transaction...''),
             CmdRun ''psql'' [destinationDB C, ''-c'', ''BEGIN;''],
             CmdRun ''pg_restore'' (pg_restore_data_args C d),
             CmdRun ''psql'' [destinationDB C, ''-c'', ''COMMIT;'']]"
    by (simp only: res)
qed

text \<open>
  Claim C2. In \<^verbatim>\<open>part_000\<close>, \<^verbatim>\<open>restoreDataWithTransaction\<close> runs \<^verbatim>\<open>psql -c "BEGIN;"\<close>, then
  the restore tool, and after its success \<^verbatim>\<open>psql -c "COMMIT;"\<close>, three separate commands
  in that order, and answers what the commit answers. When the restore tool fails with
  \<open>e\<close>, \<^verbatim>\<open>psql -c "ROLLBACK;"\<close> is run, whatever it answers is dropped, and the function
  answers the error "data restore failed: \<open>e\<close>", on which \<^verbatim>\<open>main\<close> ends the run with
  status 1 and the diagnostic of the data restore.
\<close>

theorem restore_with_transaction_part_000:
  "(let w1 = log_Print (sym_tools @ '' Restoring data within a transaction...'') w;
        begin = exec_Run E ''psql'' [destinationDB C, ''-c'', ''BEGIN;''] w1;
        restore = exec_Run E ''pg_restore'' (pg_restore_data_args C d) (snd begin);
        commit = exec_Run E ''psql'' [destinationDB C, ''-c'', ''COMMIT;''] (snd restore);
        rollback = exec_Run E ''psql'' [destinationDB C, ''-c'', ''ROLLBACK;''] (snd restore);
        result = restoreDataWithTransaction_part_000 C E d w
    in (fst begin = None \<and> fst restore = None \<longrightarrow>
          result = commit \<and>
          new_events w (snd result) =
            [LogLine (sym_tools @ '' Restoring data within a transaction...''),
             CmdRun ''psql'' [destinationDB C, ''-c'', ''BEGIN;''],
             CmdRun ''pg_restore'' (pg_restore_data_args C d),
             CmdRun ''psql'' [destinationDB C, ''-c'', ''COMMIT;'']]) \<and>
       (\<forall>e. fst begin = None \<and> fst restore = Some e \<longrightarrow>
          result = (Some (''data restore failed: '' @ e), snd rollback) \<and>
          new_events w (snd result) =
            [LogLine (sym_tools @ '' Restoring data within a transaction...''),
             CmdRun ''psql'' [destinationDB C, ''-c'', ''BEGIN;''],
             CmdRun ''pg_restore'' (pg_restore_data_args C d),
             CmdRun ''psql'' [destinationDB C, ''-c'', ''ROLLBACK;'']] \<and>
          (\<forall>rest. fail_fast (stage_of (diagnostics ! 7)
                               (restoreDataWithTransaction_part_000 C E d) # rest) w =
             (1, log_Fatal (sym_cross @ '' Data restoration failed: data restore failed: '' @ e)
                   (snd rollback))))) \<and>
   nine_steps_part_000 C E d ! 7 =
     stage_of (diagnostics ! 7) (restoreDataWithTransaction_part_000 C E d)"
proof -
  let ?wa = "log_Print (sym_tools @ '' Restoring data within a transaction...'') w"
  let ?begin = "exec_Run E ''psql'' [destinationDB C, ''-c'', ''BEGIN;''] ?wa"
  let ?restore = "exec_Run E ''pg_restore'' (pg_restore_data_args C d) (snd ?begin)"
  let ?commit = "exec_Run E ''psql'' [destinationDB C, ''-c'', ''COMMIT;''] (snd ?restore)"
  let ?rollback = "exec_Run E ''psql'' [destinationDB C, ''-c'', ''ROLLBACK;''] (snd ?restore)"
  let ?result = "restoreDataWithTransaction_part_000 C E d w"
  have ta: "trace ?wa = trace w @ [LogLine (sym_tools @ '' Restoring data within a transaction...'')]"
    by (simp add: log_Print_def emit_def)
  have ok: "fst ?begin = None \<and> fst ?restore = None \<longrightarrow>
          ?result = ?commit \<and>
          new_events w (snd ?result) =
            [LogLine (sym_tools @ '' Restoring data within a transaction...''),
             CmdRun ''psql'' [destinationDB C, ''-c'', ''BEGIN;''],
             CmdRun ''pg_restore'' (pg_restore_data_args C d),
             CmdRun ''psql'' [destinationDB C, ''-c'', ''COMMIT;'']]"
    using restore_with_transaction_committed [of E C w d] by simp
  have bad: "\<forall>e. fst ?begin = None \<and> fst ?restore = Some e \<longrightarrow>
          ?result = (Some (''data restore failed: '' @ e), snd ?rollback) \<and>
          new_events w (snd ?result) =
            [LogLine (sym_tools @ '' Restoring data within a transaction...''),
             CmdRun ''psql'' [destinationDB C, ''-c'', ''BEGIN;''],
             CmdRun ''pg_restore'' (pg_restore_data_args C d),
             CmdRun ''psql'' [destinationDB C, ''-c'', ''ROLLBACK;'']] \<and>
          (\<forall>rest. fail_fast (stage_of (diagnostics ! 7)
                               (restoreDataWithTransaction_part_000 C E d) # rest) w =
             (1, log_Fatal (sym_cross @ '' Data restoration failed: data restore failed: '' @ e)
                   (snd ?rollback)))"
  proof (intro allI impI)
    fix e
    assume h: "fst ?begin = None \<and> fst ?restore = Some e"
    then have b: "?begin = (None, snd ?begin)" and r: "?restore = (Some e, snd ?restore)"
      by (simp_all add: prod_eq_iff)
    have res: "?result = (Some (''data restore failed: '' @ e), snd ?rollback)"
      unfolding restoreDataWithTransaction_part_000_def Let_def
      by (subst b, simp, subst r, simp add: split_beta)
    have "trace (snd ?rollback) = trace w @
            [LogLine (sym_tools @ '' Restoring data within a transaction...''),
             CmdRun ''psql'' [destinationDB C, ''-c'', ''BEGIN;''],
             CmdRun ''pg_restore'' (pg_restore_data_args C d),
             CmdRun ''psql'' [destinationDB C, ''-c'', ''ROLLBACK;'']]"
      by (simp only: trace_exec_Run ta append_assoc append_Cons append_Nil)
    then have ne: "new_events w (snd ?rollback) =
            [LogLine (sym_tools @ '' Restoring data within a transaction...''),
             CmdRun ''psql'' [destinationDB C, ''-c'', ''BEGIN;''],
             CmdRun ''pg_restore'' (pg_restore_data_args C d),
             CmdRun ''psql'' [destinationDB C, ''-c'', ''ROLLBACK;'']]"
      by (rule new_events_emit)
    have ff: "\<forall>rest. fail_fast (stage_of (diagnostics ! 7)
                               (restoreDataWithTransaction_part_000 C E d) # rest) w =
             (1, log_Fatal (sym_cross @ '' Data restoration failed: data restore failed: '' @ e)
                   (snd ?rollback))"
      by (simp add: stage_of_def res diagnostics_nth)
    from res ne ff show "?result = (Some (''data restore failed: '' @ e), snd ?rollback) \<and>
          new_events w (snd ?result) =
            [LogLine (sym_tools @ '' Restoring data within a transaction...''),
             CmdRun ''psql'' [destinationDB C, ''-c'', ''BEGIN;''],
             CmdRun ''pg_restore'' (pg_restore_data_args C d),
             CmdRun ''psql'' [destinationDB C, ''-c'', ''ROLLBACK;'']] \<and>
          (\<forall>rest. fail_fast (stage_of (diagnostics ! 7)
                               (restoreDataWithTransaction_part_000 C E d) # rest) w =
             (1, log_Fatal (sym_cross @ '' Data restoration failed: data restore failed: '' @ e)
                   (snd ?rollback)))"
      by simp
  qed
  have nth: "nine_steps_part_000 C E d ! 7 =
     stage_of (diagnostics ! 7) (restoreDataWithTransaction_part_000 C E d)"
    by (simp add: nine_steps_part_000_def)
  from ok bad nth show ?thesis unfolding Let_def by blast
qed

text \<open>
  Claim C10. In \<^verbatim>\<open>part_000\<close>, when the restore tool succeeds and \<^verbatim>\<open>psql -c "COMMIT;"\<close>
  fails with \<open>e\<close>, \<^verbatim>\<open>restoreDataWithTransaction\<close> answers \<open>e\<close> itself, and the commands
  it has run are the begin, the restore and the commit: no rollback is attempted.
\<close>

theorem commit_failure_is_returned_part_000:
  "(let w1 = log_Print (sym_tools @ '' Restoring data within a transaction...'') w;
        begin = exec_Run E ''psql'' [destinationDB C, ''-c'', ''BEGIN;''] w1;
        restore = exec_Run E ''pg_restore'' (pg_restore_data_args C d) (snd begin);
        commit = exec_Run E ''psql'' [destinationDB C, ''-c'', ''COMMIT;''] (snd restore);
        result = restoreDataWithTransaction_part_000 C E d w
    in \<forall>e. fst begin = None \<and> fst restore = None \<and> fst commit = Some e \<longrightarrow>
          result = (Some e, snd commit) \<and>
          new_events w (snd result) =
            [LogLine (sym_tools @ '' Restoring data within a transaction...''),
             CmdRun ''psql'' [destinationDB C, ''-c'', ''BEGIN;''],
             CmdRun ''pg_restore'' (pg_restore_data_args C d),
             CmdRun ''psql'' [destinationDB C, ''-c'', ''COMMIT;'']] \<and>
          CmdRun ''psql'' [destinationDB C, ''-c'', ''ROLLBACK;'']
            \<notin> set (new_events w (snd result)))"
proof -
  let ?wa = "log_Print (sym_tools @ '' Restoring data within a transaction...'') w"
  let ?begin = "exec_Run E ''psql'' [destinationDB C, ''-c'', ''BEGIN;''] ?wa"
  let ?restore = "exec_Run E ''pg_restore'' (pg_restore_data_args C d) (snd ?begin)"
  let ?commit = "exec_Run E ''psql'' [destinationDB C, ''-c'', ''COMMIT;''] (snd ?restore)"
  let ?result = "restoreDataWithTransaction_part_000 C E d w"
  have "\<forall>e. fst ?begin = None \<and> fst ?restore = None \<and> fst ?commit = Some e \<longrightarrow>
          ?result = (Some e, snd ?commit) \<and>
          new_events w (snd ?result) =
            [LogLine (sym_tools @ '' Restoring data within a transaction...''),
             CmdRun ''psql'' [destinationDB C, ''-c'', ''BEGIN;''],
             CmdRun ''pg_restore'' (pg_restore_data_args C d),
             CmdRun ''psql'' [destinationDB C, ''-c'', ''COMMIT;'']] \<and>
          CmdRun ''psql'' [destinationDB C, ''-c'', ''ROLLBACK;'']
            \<notin> set (new_events w (snd ?result))"
  proof (intro allI impI, elim conjE)
    fix e
    assume b: "fst ?begin = None" and r: "fst ?restore = None" and c: "fst ?commit = Some e"
    note committed = restore_with_transaction_committed [OF b r]
    from committed(1) c have "?result = (Some e, snd ?commit)"
      by (simp add: prod_eq_iff)
    moreover note committed(2)
    moreover have "CmdRun ''psql'' [destinationDB C, ''-c'', ''ROLLBACK;'']
            \<notin> set (new_events w (snd ?result))"
      unfolding committed(2) by simp
    ultimately show "?result = (Some e, snd ?commit) \<and>
          new_events w (snd ?result) =
            [LogLine (sym_tools @ '' Restoring data within a transaction...''),
             CmdRun ''psql'' [destinationDB C, ''-c'', ''BEGIN;''],
             CmdRun ''pg_restore'' (pg_restore_data_args C d),
             CmdRun ''psql'' [destinationDB C, ''-c'', ''COMMIT;'']] \<and>
          CmdRun ''psql'' [destinationDB C, ''-c'', ''ROLLBACK;'']
            \<notin> set (new_events w (snd ?result))"
      by blast
  qed
  then show ?thesis unfolding Let_def .
qed

theorem restore_with_transaction_part_000_witness:
  "fst (restoreDataWithTransaction_part_000 main_go_config data_restore_fails_env
          ''/srv/migrate/backup_dir'' start_world) = Some ''data restore failed: exit status 1'' \<and>
   commands (trace (snd (restoreDataWithTransaction_part_000 main_go_config data_restore_fails_env
          ''/srv/migrate/backup_dir'' start_world))) = [''psql'', ''pg_restore'', ''psql'']"
proof -
  let ?E = data_restore_fails_env and ?C = main_go_config and ?d = "''/srv/migrate/backup_dir''"
  let ?wa = "log_Print (sym_tools @ '' Restoring data within a transaction...'') start_world"
  let ?begin = "exec_Run ?E ''psql'' [destinationDB ?C, ''-c'', ''BEGIN;''] ?wa"
  let ?restore = "exec_Run ?E ''pg_restore'' (pg_restore_data_args ?C ?d) (snd ?begin)"
  let ?rollback = "exec_Run ?E ''psql'' [destinationDB ?C, ''-c'', ''ROLLBACK;''] (snd ?restore)"
  have b: "fst ?begin = None" by code_simp
  have r: "fst ?restore = Some ''exit status 1''" by code_simp
  note inst = restore_with_transaction_part_000 [where E = ?E and C = ?C and w = start_world and d = ?d, unfolded Let_def,
      THEN conjunct1, THEN conjunct2, rule_format, OF conjI [OF b r], THEN conjunct1]
  have "commands (trace (snd ?rollback)) = [''psql'', ''pg_restore'', ''psql'']" by code_simp
  with inst show ?thesis by simp
qed

theorem commit_failure_is_returned_part_000_witness:
  "fst (restoreDataWithTransaction_part_000 main_go_config commit_fails_env
          ''/srv/migrate/backup_dir'' start_world) = Some ''exit status 2'' \<and>
   CmdRun ''psql'' [''your_destination_db_connection_string'', ''-c'', ''ROLLBACK;'']
     \<notin> set (new_events start_world
              (snd (restoreDataWithTransaction_part_000 main_go_config commit_fails_env
                 ''/srv/migrate/backup_dir'' start_world)))"
proof -
  let ?E = commit_fails_env and ?C = main_go_config and ?d = "''/srv/migrate/backup_dir''"
  let ?wa = "log_Print (sym_tools @ '' Restoring data within a transaction...'') start_world"
  let ?begin = "exec_Run ?E ''psql'' [destinationDB ?C, ''-c'', ''BEGIN;''] ?wa"
  let ?restore = "exec_Run ?E ''pg_restore'' (pg_restore_data_args ?C ?d) (snd ?begin)"
  let ?commit = "exec_Run ?E ''psql'' [destinationDB ?C, ''-c'', ''COMMIT;''] (snd ?restore)"
  have b: "fst ?begin = None" by code_simp
  have r: "fst ?restore = None" by code_simp
  have c: "fst ?commit = Some ''exit status 2''" by code_simp
  note inst = commit_failure_is_returned_part_000 [where E = ?E and C = ?C and w = start_world and d = ?d, unfolded Let_def,
      rule_format, OF conjI [OF b conjI [OF r c]]]
  from inst [THEN conjunct1] have "fst (restoreDataWithTransaction_part_000 ?C ?E ?d start_world)
      = Some ''exit status 2''" by simp
  moreover from inst [THEN conjunct2, THEN conjunct2]
  have "CmdRun ''psql'' [''your_destination_db_connection_string'', ''-c'', ''ROLLBACK;'']
     \<notin> set (new_events start_world (snd (restoreDataWithTransaction_part_000 ?C ?E ?d start_world)))"
    by (simp add: main_go_config_def)
  ultimately show ?thesis by blast
qed

subsection \<open>The backup directory\<close>

lemma files_emit [simp]: "files (emit ev w) = files w"
  by (simp add: emit_def)

lemma files_log_Print [simp]: "files (log_Print msg w) = files w"
  by (simp add: log_Print_def)

lemma node_at_emit [simp]: "node_at E (emit ev w) name = node_at E w name"
  by (simp add: node_at_def)

lemma node_at_log_Print [simp]: "node_at E (log_Print msg w) name = node_at E w name"
  by (simp add: node_at_def)

lemma os_RemoveAll_absent: "node_at E w name = None \<Longrightarrow> fst (os_RemoveAll E name w) = None"
  by (simp add: os_RemoveAll_def Let_def)

lemma os_RemoveAll_ok:
  assumes "fst (os_RemoveAll E name w) = None"
  shows "node_at E (snd (os_RemoveAll E name w)) name = None"
    and "name \<noteq> [] \<Longrightarrow>
         files (snd (os_RemoveAll E name w)) = (\<lambda>q. if prefix (namei E name) q then None else files w q)"
  using assms
  by (auto simp: os_RemoveAll_def Let_def node_at_def split: if_splits option.splits prod.splits)

lemma os_MkdirAll_ok:
  assumes "fst (os_MkdirAll E name perm w) = None"
  shows "node_at E (snd (os_MkdirAll E name perm w)) name = Some Dir"
    and "name \<noteq> []"
    and "\<And>q. strict_prefix (namei E name) q \<Longrightarrow>
           files (snd (os_MkdirAll E name perm w)) q = files w q"
  using assms
  by (auto simp: os_MkdirAll_def Let_def node_at_def
      split: if_splits option.splits prod.splits node.splits)

lemma os_MkdirAll_can:
  assumes "name \<noteq> []" and "node_at E w name = None"
    and "\<not> list_ex (\<lambda>q. files w q = Some File) (prefixes (namei E name))"
    and "mkdir_fault E name w = None"
  shows "fst (os_MkdirAll E name perm w) = None"
  using assms by (simp add: os_MkdirAll_def Let_def)

lemma resetBackupDir_unfold:
  "fst (os_RemoveAll E d (log_Print (sym_bin @ '' Removing existing backup directory...'') w)) = None \<Longrightarrow>
   resetBackupDir E d w =
     os_MkdirAll E d 493
       (log_Print (sym_folder @ '' Creating a new backup directory...'')
          (snd (os_RemoveAll E d (log_Print (sym_bin @ '' Removing existing backup directory...'') w))))"
  unfolding resetBackupDir_def Let_def
  by (cases "os_RemoveAll E d (log_Print (sym_bin @ '' Removing existing backup directory...'') w)")
     simp

lemma resetBackupDir_removal_failed:
  "fst (os_RemoveAll E d (log_Print (sym_bin @ '' Removing existing backup directory...'') w)) = Some e \<Longrightarrow>
   fst (resetBackupDir E d w) = Some (''failed to remove backup directory: '' @ e)"
  unfolding resetBackupDir_def Let_def
  by (cases "os_RemoveAll E d (log_Print (sym_bin @ '' Removing existing backup directory...'') w)")
     simp



text \<open>
  Claim C7. In \<^verbatim>\<open>part_000\<close>, \<^verbatim>\<open>dumpData\<close> either runs \<^verbatim>\<open>pg_dump\<close> as its only command
  and last action, in a world in which nothing exists at the name of the dump directory
  (and when something existed there before, \<^verbatim>\<open>RemoveAll\<close> was called on it), or the removal
  failed and no command was run at all. The arguments of the tool hold
  \<^verbatim>\<open>--data-only\<close> and the configured \<^verbatim>\<open>--jobs\<close>.
\<close>

theorem dumpData_part_000_starts_without_directory:
  "((\<exists>w'. dumpData_part_000 C E d w = exec_Run E ''pg_dump'' (pg_dump_data_args C d) w' \<and>
         node_at E w' d = None \<and> prefix (trace w) (trace w') \<and>
         list_all (\<lambda>ev. \<not> is_command ev) (new_events w w') \<and>
         (node_at E w d \<noteq> None \<longrightarrow> OsRemoveAll d \<in> set (new_events w w'))) \<or>
    (\<exists>e. fst (dumpData_part_000 C E d w) =
            Some (''failed to remove backup directory before data dump: '' @ e) \<and>
        list_all (\<lambda>ev. \<not> is_command ev) (new_events w (snd (dumpData_part_000 C E d w))))) \<and>
   ''--data-only'' \<in> set (pg_dump_data_args C d) \<and>
   ''--jobs='' @ jobs C \<in> set (pg_dump_data_args C d)"
proof (intro conjI)
  show "''--data-only'' \<in> set (pg_dump_data_args C d)"
    by (simp add: pg_dump_data_args_def)
  show "''--jobs='' @ jobs C \<in> set (pg_dump_data_args C d)"
    by (simp add: pg_dump_data_args_def)
next
  let ?wa = "log_Print (sym_package @ '' Dumping data only...'') w"
  let ?wb = "emit (OsStat d) ?wa"
  let ?wc = "log_Print (sym_bin @ '' Removing backup directory before dumping data...'') ?wb"
  let ?rm = "os_RemoveAll E d ?wc"
  have tb: "trace ?wb = trace w @ [LogLine (sym_package @ '' Dumping data only...''), OsStat d]"
    by (simp add: log_Print_def emit_def)
  have tr: "trace (snd ?rm) = trace w @
      [LogLine (sym_package @ '' Dumping data only...''), OsStat d,
       LogLine (sym_bin @ '' Removing backup directory before dumping data...''),
       OsRemoveAll d]"
    by (simp add: os_RemoveAll_def log_Print_def emit_def Let_def split: option.splits)
  show "(\<exists>w'. dumpData_part_000 C E d w = exec_Run E ''pg_dump'' (pg_dump_data_args C d) w' \<and>
         node_at E w' d = None \<and> prefix (trace w) (trace w') \<and>
         list_all (\<lambda>ev. \<not> is_command ev) (new_events w w') \<and>
         (node_at E w d \<noteq> None \<longrightarrow> OsRemoveAll d \<in> set (new_events w w'))) \<or>
    (\<exists>e. fst (dumpData_part_000 C E d w) =
            Some (''failed to remove backup directory before data dump: '' @ e) \<and>
        list_all (\<lambda>ev. \<not> is_command ev) (new_events w (snd (dumpData_part_000 C E d w))))"
  proof (cases "os_IsNotExist (fst (os_Stat E d ?wa))")
    case True
    then have absent: "node_at E w d = None"
      by (simp add: os_IsNotExist_def os_Stat_def split: option.splits)
    have eq: "dumpData_part_000 C E d w = exec_Run E ''pg_dump'' (pg_dump_data_args C d) ?wb"
      using True unfolding dumpData_part_000_def Let_def
      by (cases "os_Stat E d ?wa") (simp add: os_Stat_def)
    have "node_at E ?wb d = None" using absent by simp
    moreover have "prefix (trace w) (trace ?wb)" by (simp add: tb)
    moreover have "list_all (\<lambda>ev. \<not> is_command ev) (new_events w ?wb)"
      unfolding new_events_emit [OF tb] by simp
    ultimately show ?thesis using eq absent by blast
  next
    case False
    have st: "os_Stat E d ?wa = (fst (os_Stat E d ?wa), ?wb)"
      by (simp add: os_Stat_def)
    show ?thesis
    proof (cases "fst ?rm")
      case None
      then have rm: "?rm = (None, snd ?rm)" by (simp add: prod_eq_iff)
      have eq: "dumpData_part_000 C E d w =
          exec_Run E ''pg_dump'' (pg_dump_data_args C d) (snd ?rm)"
        unfolding dumpData_part_000_def Let_def
        by (subst st, simp add: False, subst rm, simp)
      have "node_at E (snd ?rm) d = None" by (rule os_RemoveAll_ok(1) [OF None])
      moreover have "prefix (trace w) (trace (snd ?rm))" by (simp add: tr)
      moreover have "list_all (\<lambda>ev. \<not> is_command ev) (new_events w (snd ?rm))"
        unfolding new_events_emit [OF tr] by simp
      moreover have "OsRemoveAll d \<in> set (new_events w (snd ?rm))"
        unfolding new_events_emit [OF tr] by simp
      ultimately show ?thesis using eq by blast
    next
      case (Some e)
      then have rm: "?rm = (Some e, snd ?rm)" by (simp add: prod_eq_iff)
      have eq: "dumpData_part_000 C E d w =
          (Some (''failed to remove backup directory before data dump: '' @ e), snd ?rm)"
        unfolding dumpData_part_000_def Let_def
        by (subst st, simp add: False, subst rm, simp)
      have "list_all (\<lambda>ev. \<not> is_command ev) (new_events w (snd ?rm))"
        unfolding new_events_emit [OF tr] by simp
      with eq show ?thesis by simp
    qed
  qed
qed

theorem dumpData_part_000_starts_without_directory_witness:
  "\<exists>w'. dumpData_part_000 main_go_config quiet_env ''/srv/migrate/backup_dir'' used_world =
           exec_Run quiet_env ''pg_dump''
             (pg_dump_data_args main_go_config ''/srv/migrate/backup_dir'') w' \<and>
         node_at quiet_env w' ''/srv/migrate/backup_dir'' = None \<and>
         OsRemoveAll ''/srv/migrate/backup_dir'' \<in> set (new_events used_world w')"
proof -
  let ?d = "''/srv/migrate/backup_dir''"
  have there: "node_at quiet_env used_world ?d \<noteq> None" by code_simp
  have ok: "fst (dumpData_part_000 main_go_config quiet_env ?d used_world) = None" by code_simp
  from dumpData_part_000_starts_without_directory
         [where C = main_go_config and E = quiet_env and d = ?d and w = used_world,
          THEN conjunct1]
  show ?thesis using there ok by auto
qed

subsection \<open>The cleanup of the destination\<close>

lemma EXECUTE_Inr:
  assumes "EXECUTE deny st s = Inr s'"
  shows "executed s' = executed s @ [st]"
    and "(\<exists>r. st = SetRole r \<and> session_replication_role s' = r \<and> store s' = store s) \<or>
         ((\<forall>r. st \<noteq> SetRole r) \<and> session_replication_role s' = session_replication_role s)"
  using assms
  by (auto simp: EXECUTE_def split: option.splits stmt.splits if_splits)

lemma FOR_LOOP_drops:
  assumes "\<And>r q. f r \<noteq> SetRole q"
  shows "FOR_LOOP rs (\<lambda>r. EXECUTE deny (f r)) s = Inr s' \<Longrightarrow>
         executed s' = executed s @ map f rs \<and>
         session_replication_role s' = session_replication_role s"
proof (induction rs arbitrary: s)
  case Nil
  then show ?case by simp
next
  case (Cons r rs)
  from Cons.prems obtain s1 where a: "EXECUTE deny (f r) s = Inr s1"
    and b: "FOR_LOOP rs (\<lambda>r. EXECUTE deny (f r)) s1 = Inr s'"
    by (auto split: sum.splits)
  from EXECUTE_Inr [OF a] assms
  have "executed s1 = executed s @ [f r]"
    and "session_replication_role s1 = session_replication_role s" by auto
  with Cons.IH [OF b] show ?case by simp
qed

lemma select_after_SetRole:
  assumes "EXECUTE deny (SetRole r) s = Inr s1"
  shows "select_tablename s1 = select_tablename s"
  using EXECUTE_Inr(2) [OF assms] by (auto simp: select_tablename_def)

lemma cleanSQL_block_Inr:
  assumes "cleanSQL_block deny s = Inr s'"
  shows "executed s' =
           executed s @ [SetRole ''replica''] @ map DropTable (select_tablename s)
             @ [SetRole ''origin'']"
    and "session_replication_role s' = ''origin''"
proof -
  from assms obtain s1 s2 where
    a: "EXECUTE deny (SetRole ''replica'') s = Inr s1" and
    b: "FOR_LOOP (select_tablename s1) (\<lambda>r. EXECUTE deny (DropTable r)) s1 = Inr s2" and
    c: "EXECUTE deny (SetRole ''origin'') s2 = Inr s'"
    by (auto simp: cleanSQL_block_def split: sum.splits)
  have l: "executed s2 = executed s1 @ map DropTable (select_tablename s1)"
    using FOR_LOOP_drops [OF _ b] by simp
  show "executed s' =
           executed s @ [SetRole ''replica''] @ map DropTable (select_tablename s)
             @ [SetRole ''origin'']"
    using EXECUTE_Inr(1) [OF a] l EXECUTE_Inr(1) [OF c] select_after_SetRole [OF a]
    by simp
  show "session_replication_role s' = ''origin''"
    using EXECUTE_Inr(2) [OF c] by auto
qed

lemma cleanSQL_part_000_block_Inr:
  assumes "cleanSQL_part_000_block deny s = Inr s'"
  shows "\<exists>s1 s2 s3.
           EXECUTE deny (SetRole ''replica'') s = Inr s1 \<and>
           FOR_LOOP (select_tablename s1) (\<lambda>r. EXECUTE deny (DropTable r)) s1 = Inr s2 \<and>
           FOR_LOOP (select_sequencename s2) (\<lambda>r. EXECUTE deny (DropSequence r)) s2 = Inr s3 \<and>
           executed s' =
             executed s @ [SetRole ''replica''] @ map DropTable (select_tablename s)
               @ map DropSequence (select_sequencename s2) @ map DropType (select_typname s3)
               @ [SetRole ''origin'']"
    and "session_replication_role s' = ''origin''"
proof -
  from assms obtain s1 s2 s3 s4 where
    a: "EXECUTE deny (SetRole ''replica'') s = Inr s1" and
    b: "FOR_LOOP (select_tablename s1) (\<lambda>r. EXECUTE deny (DropTable r)) s1 = Inr s2" and
    c: "FOR_LOOP (select_sequencename s2) (\<lambda>r. EXECUTE deny (DropSequence r)) s2 = Inr s3" and
    d: "FOR_LOOP (select_typname s3) (\<lambda>r. EXECUTE deny (DropType r)) s3 = Inr s4" and
    e: "EXECUTE deny (SetRole ''origin'') s4 = Inr s'"
    by (auto simp: cleanSQL_part_000_block_def split: sum.splits)
  have "executed s2 = executed s1 @ map DropTable (select_tablename s1)"
    using FOR_LOOP_drops [OF _ b] by simp
  moreover have "executed s3 = executed s2 @ map DropSequence (select_sequencename s2)"
    using FOR_LOOP_drops [OF _ c] by simp
  moreover have "executed s4 = executed s3 @ map DropType (select_typname s3)"
    using FOR_LOOP_drops [OF _ d] by simp
  ultimately have "executed s' =
             executed s @ [SetRole ''replica''] @ map DropTable (select_tablename s)
               @ map DropSequence (select_sequencename s2) @ map DropType (select_typname s3)
               @ [SetRole ''origin'']"
    using EXECUTE_Inr(1) [OF a] EXECUTE_Inr(1) [OF e] select_after_SetRole [OF a] by simp
  with a b c show "\<exists>s1 s2 s3.
           EXECUTE deny (SetRole ''replica'') s = Inr s1 \<and>
           FOR_LOOP (select_tablename s1) (\<lambda>r. EXECUTE deny (DropTable r)) s1 = Inr s2 \<and>
           FOR_LOOP (select_sequencename s2) (\<lambda>r. EXECUTE deny (DropSequence r)) s2 = Inr s3 \<and>
           executed s' =
             executed s @ [SetRole ''replica''] @ map DropTable (select_tablename s)
               @ map DropSequence (select_sequencename s2) @ map DropType (select_typname s3)
               @ [SetRole ''origin'']"
    by blast
  show "session_replication_role s' = ''origin''"
    using EXECUTE_Inr(2) [OF e] by auto
qed

lemma session_after_role:
  assumes "\<And>s'. script s = Inr s' \<Longrightarrow> session_replication_role s' = ''origin''"
    and "session_replication_role s \<noteq> ''replica''"
  shows "session_replication_role (session_after script s) \<noteq> ''replica''"
  using assms by (auto simp: session_after_def split: sum.splits)

lemma trace_cleanDestinationDB:
  "new_events w (snd (cleanDestinationDB C E w)) =
     [LogLine (sym_bin @ '' Cleaning the destination database...''),
      CmdRun ''psql'' [destinationDB C, ''-c'', cleanSQL]]"
  by (rule new_events_emit)
     (simp add: cleanDestinationDB_def exec_Run_def log_Print_def emit_def Let_def)

lemma trace_cleanDestinationDB_part_000:
  "new_events w (snd (cleanDestinationDB_part_000 C E w)) =
     [LogLine (sym_bin @ '' Cleaning the destination database...''),
      CmdRun ''psql'' [destinationDB C, ''-c'', cleanSQL_part_000]]"
  by (rule new_events_emit)
     (simp add: cleanDestinationDB_part_000_def exec_Run_def log_Print_def emit_def Let_def)


lemma executed_shop_session: "executed shop_session = []"
  by (simp add: shop_session_def)


lemma psql_c_empty:
  assumes "catalog d = []" and "deny (SetRole ''replica'') = None"
    and "deny (SetRole ''origin'') = None"
  shows "psql_c (cleanSQL_block deny) d = (None, d)"
    and "psql_c (cleanSQL_part_000_block deny) d = (None, d)"
  using assms
  by (simp_all add: psql_c_def cleanSQL_block_def cleanSQL_part_000_block_def EXECUTE_def
      select_tablename_def select_sequencename_def select_typname_def)

text \<open>
  Claim C5. On a destination without tables, sequences and enum types, on which the server
  accepts the two statements that set the role, the cleanup ends without error and leaves
  the database as it was; a second run in succession does the same, so that the state
  after the second run is the state after the first. This holds for both scripts.
\<close>

theorem cleanup_idempotent_on_empty:
  "catalog d = [] \<and> deny (SetRole ''replica'') = None \<and> deny (SetRole ''origin'') = None \<longrightarrow>
     (let first = psql_c (cleanSQL_block deny) d;
          second = psql_c (cleanSQL_block deny) (snd first)
      in fst first = None \<and> fst second = None \<and> snd second = snd first \<and> snd first = d) \<and>
     (let first = psql_c (cleanSQL_part_000_block deny) d;
          second = psql_c (cleanSQL_part_000_block deny) (snd first)
      in fst first = None \<and> fst second = None \<and> snd second = snd first \<and> snd first = d)"
proof
  assume h: "catalog d = [] \<and> deny (SetRole ''replica'') = None \<and> deny (SetRole ''origin'') = None"
  then have a: "psql_c (cleanSQL_block deny) d = (None, d)"
    and b: "psql_c (cleanSQL_part_000_block deny) d = (None, d)"
    by (simp_all add: psql_c_empty)
  show "(let first = psql_c (cleanSQL_block deny) d;
          second = psql_c (cleanSQL_block deny) (snd first)
      in fst first = None \<and> fst second = None \<and> snd second = snd first \<and> snd first = d) \<and>
     (let first = psql_c (cleanSQL_part_000_block deny) d;
          second = psql_c (cleanSQL_part_000_block deny) (snd first)
      in fst first = None \<and> fst second = None \<and> snd second = snd first \<and> snd first = d)"
    by (simp add: Let_def a b)
qed

theorem cleanup_idempotent_on_empty_witness:
  "psql_c (cleanSQL_block permit_all) empty_db = (None, empty_db) \<and>
   psql_c (cleanSQL_part_000_block permit_all)
     (snd (psql_c (cleanSQL_part_000_block permit_all) empty_db)) = (None, empty_db)"
proof -
  have h: "catalog empty_db = [] \<and> permit_all (SetRole ''replica'') = None \<and>
      permit_all (SetRole ''origin'') = None"
    by (simp add: empty_db_def permit_all_def)
  from cleanup_idempotent_on_empty [where d = empty_db and deny = permit_all, THEN mp, OF h]
  show ?thesis by (simp add: Let_def prod_eq_iff)
qed

subsection \<open>What the cleanup leaves in place\<close>

lemma drop_if_exists_cascade_sub:
  "set (catalog (drop_if_exists_cascade t d)) \<subseteq> set (catalog d)"
  "set (pg_depend (drop_if_exists_cascade t d)) \<subseteq> set (pg_depend d)"
  by (auto simp: drop_if_exists_cascade_def)

lemma drop_if_exists_cascade_keeps:
  "\<not> (t \<in> set (catalog d) \<and> doomed d t x) \<Longrightarrow>
   x \<in> set (catalog (drop_if_exists_cascade t d)) \<longleftrightarrow> x \<in> set (catalog d)"
  by (auto simp: drop_if_exists_cascade_def)

lemma EXECUTE_store:
  "EXECUTE deny st s = Inr s' \<Longrightarrow>
   store s' = store s \<or> (\<exists>k n. store s' = drop_if_exists_cascade (k, ''public'', n) (store s))"
  by (cases st) (fastforce simp: EXECUTE_def split: option.splits if_splits)+

text \<open>An object \<open>x\<close> outside \<^verbatim>\<open>public\<close> that depends on nothing in \<^verbatim>\<open>public\<close> survives
  every statement of the script, as long as the database has only lost objects and
  dependencies since the start \<open>d0\<close>.\<close>

lemma EXECUTE_frame:
  assumes out: "fst (snd x) \<noteq> ''public''"
    and free: "\<forall>p\<in>set (catalog d0). fst (snd p) = ''public'' \<longrightarrow> (x, p) \<notin> (set (pg_depend d0))\<^sup>+"
    and sub: "set (catalog (store s)) \<subseteq> set (catalog d0)"
             "set (pg_depend (store s)) \<subseteq> set (pg_depend d0)"
    and run: "EXECUTE deny st s = Inr s'"
  shows "set (catalog (store s')) \<subseteq> set (catalog d0)"
    and "set (pg_depend (store s')) \<subseteq> set (pg_depend d0)"
    and "x \<in> set (catalog (store s')) \<longleftrightarrow> x \<in> set (catalog (store s))"
proof -
  have safe: "\<not> (t \<in> set (catalog (store s)) \<and> doomed (store s) t x)"
    if t: "fst (snd t) = ''public''" for t
  proof
    assume a: "t \<in> set (catalog (store s)) \<and> doomed (store s) t x"
    then have "t \<in> set (catalog d0)" using sub(1) by auto
    with free t have n: "(x, t) \<notin> (set (pg_depend d0))\<^sup>+" by auto
    from a have "x = t \<or> (x, t) \<in> (set (pg_depend (store s)))\<^sup>+" by (simp add: doomed_def)
    then show False
    proof
      assume "x = t"
      with out t show False by simp
    next
      assume "(x, t) \<in> (set (pg_depend (store s)))\<^sup>+"
      then have "(x, t) \<in> (set (pg_depend d0))\<^sup>+"
        using trancl_mono [OF _ sub(2)] by blast
      with n show False by simp
    qed
  qed
  have dropped: "set (catalog (drop_if_exists_cascade (k, ''public'', n) (store s))) \<subseteq> set (catalog d0) \<and>
      set (pg_depend (drop_if_exists_cascade (k, ''public'', n) (store s))) \<subseteq> set (pg_depend d0) \<and>
      (x \<in> set (catalog (drop_if_exists_cascade (k, ''public'', n) (store s)))
         \<longleftrightarrow> x \<in> set (catalog (store s)))" for k n
    using drop_if_exists_cascade_sub [of "(k, ''public'', n)" "store s"] sub
      drop_if_exists_cascade_keeps [OF safe, of "(k, ''public'', n)"]
    by auto
  from EXECUTE_store [OF run]
  have "set (catalog (store s')) \<subseteq> set (catalog d0) \<and>
      set (pg_depend (store s')) \<subseteq> set (pg_depend d0) \<and>
      (x \<in> set (catalog (store s')) \<longleftrightarrow> x \<in> set (catalog (store s)))"
  proof
    assume "store s' = store s"
    with sub show ?thesis by simp
  next
    assume "\<exists>k n. store s' = drop_if_exists_cascade (k, ''public'', n) (store s)"
    then obtain k n where "store s' = drop_if_exists_cascade (k, ''public'', n) (store s)"
      by blast
    with dropped [of k n] show ?thesis by simp
  qed
  then show "set (catalog (store s')) \<subseteq> set (catalog d0)"
    and "set (pg_depend (store s')) \<subseteq> set (pg_depend d0)"
    and "x \<in> set (catalog (store s')) \<longleftrightarrow> x \<in> set (catalog (store s))"
    by blast+
qed

lemma FOR_LOOP_frame:
  assumes out: "fst (snd x) \<noteq> ''public''"
    and free: "\<forall>p\<in>set (catalog d0). fst (snd p) = ''public'' \<longrightarrow> (x, p) \<notin> (set (pg_depend d0))\<^sup>+"
  shows "set (catalog (store s)) \<subseteq> set (catalog d0) \<Longrightarrow>
         set (pg_depend (store s)) \<subseteq> set (pg_depend d0) \<Longrightarrow>
         FOR_LOOP rs (\<lambda>r. EXECUTE deny (f r)) s = Inr s' \<Longrightarrow>
         set (catalog (store s')) \<subseteq> set (catalog d0) \<and>
         set (pg_depend (store s')) \<subseteq> set (pg_depend d0) \<and>
         (x \<in> set (catalog (store s')) \<longleftrightarrow> x \<in> set (catalog (store s)))"
proof (induction rs arbitrary: s)
  case Nil
  then show ?case by simp
next
  case (Cons r rs)
  from Cons.prems(3) obtain s1 where a: "EXECUTE deny (f r) s = Inr s1"
    and b: "FOR_LOOP rs (\<lambda>r. EXECUTE deny (f r)) s1 = Inr s'"
    by (auto split: sum.splits)
  note one = EXECUTE_frame [OF out free Cons.prems(1,2) a]
  from Cons.IH [OF one(1,2) b] one(3) show ?case by simp
qed

lemma cleanSQL_block_frame:
  assumes out: "fst (snd x) \<noteq> ''public''"
    and free: "\<forall>p\<in>set (catalog d). fst (snd p) = ''public'' \<longrightarrow> (x, p) \<notin> (set (pg_depend d))\<^sup>+"
    and start: "store s = d"
    and run: "cleanSQL_block deny s = Inr s'"
  shows "x \<in> set (catalog (store s')) \<longleftrightarrow> x \<in> set (catalog d)"
proof -
  from run obtain s1 s2 where
    a: "EXECUTE deny (SetRole ''replica'') s = Inr s1" and
    b: "FOR_LOOP (select_tablename s1) (\<lambda>r. EXECUTE deny (DropTable r)) s1 = Inr s2" and
    c: "EXECUTE deny (SetRole ''origin'') s2 = Inr s'"
    by (auto simp: cleanSQL_block_def split: sum.splits)
  have s0: "set (catalog (store s)) \<subseteq> set (catalog d)" "set (pg_depend (store s)) \<subseteq> set (pg_depend d)"
    using start by simp_all
  note f1 = EXECUTE_frame [OF out free s0 a]
  note f2 = FOR_LOOP_frame [OF out free f1(1,2) b]
  note f3 = EXECUTE_frame [OF out free f2 [THEN conjunct1] f2 [THEN conjunct2, THEN conjunct1] c]
  from f1(3) f2 f3(3) start show ?thesis by simp
qed

lemma cleanSQL_part_000_block_frame:
  assumes out: "fst (snd x) \<noteq> ''public''"
    and free: "\<forall>p\<in>set (catalog d). fst (snd p) = ''public'' \<longrightarrow> (x, p) \<notin> (set (pg_depend d))\<^sup>+"
    and start: "store s = d"
    and run: "cleanSQL_part_000_block deny s = Inr s'"
  shows "x \<in> set (catalog (store s')) \<longleftrightarrow> x \<in> set (catalog d)"
proof -
  from run obtain s1 s2 s3 s4 where
    a: "EXECUTE deny (SetRole ''replica'') s = Inr s1" and
    b: "FOR_LOOP (select_tablename s1) (\<lambda>r. EXECUTE deny (DropTable r)) s1 = Inr s2" and
    c: "FOR_LOOP (select_sequencename s2) (\<lambda>r. EXECUTE deny (DropSequence r)) s2 = Inr s3" and
    d: "FOR_LOOP (select_typname s3) (\<lambda>r. EXECUTE deny (DropType r)) s3 = Inr s4" and
    e: "EXECUTE deny (SetRole ''origin'') s4 = Inr s'"
    by (auto simp: cleanSQL_part_000_block_def split: sum.splits)
  have s0: "set (catalog (store s)) \<subseteq> set (catalog d)" "set (pg_depend (store s)) \<subseteq> set (pg_depend d)"
    using start by simp_all
  note f1 = EXECUTE_frame [OF out free s0 a]
  note f2 = FOR_LOOP_frame [OF out free f1(1,2) b]
  note f3 = FOR_LOOP_frame [OF out free f2 [THEN conjunct1] f2 [THEN conjunct2, THEN conjunct1] c]
  note f4 = FOR_LOOP_frame [OF out free f3 [THEN conjunct1] f3 [THEN conjunct2, THEN conjunct1] d]
  note f5 = EXECUTE_frame [OF out free f4 [THEN conjunct1] f4 [THEN conjunct2, THEN conjunct1] e]
  from f1(3) f2 f3 f4 f5(3) start show ?thesis by simp
qed

lemma psql_c_frame:
  assumes "\<And>s s'. store s = d \<Longrightarrow> script s = Inr s' \<Longrightarrow>
             (x \<in> set (catalog (store s')) \<longleftrightarrow> x \<in> set (catalog d))"
  shows "x \<in> set (catalog (snd (psql_c script d))) \<longleftrightarrow> x \<in> set (catalog d)"
proof (cases "script \<lparr>store = d, session_replication_role = ''origin'', executed = []\<rparr>")
  case (Inl e)
  then show ?thesis by (simp add: psql_c_def)
next
  case (Inr s')
  from assms [OF _ Inr] Inr show ?thesis by (simp add: psql_c_def)
qed




end
